theory Spec2Isabelle
  imports Main
begin

section \<open>Python values, errors and outcomes of a call\<close>

text \<open>
  Stored values are arbitrary Python objects. The only value the code itself produces is
  \<open>None\<close> (a method that falls off its end returns it, and it is the default of
  \<open>dict.get\<close> and \<open>dict.pop\<close>), so a value is either \<open>None\<close> or some other payload.
  Keys are hashable Python objects compared by \<open>==\<close>: the type \<open>'k\<close> with HOL equality.
\<close>

datatype 'a pyval = PyNone | Val 'a

text \<open>
  The exceptions that can reach a caller: Python's own, those of \<open>pickle\<close> (\<open>EOFError\<close> is
  what \<open>pickle.loads\<close> raises on empty input), and \<open>WinError\<close> for \<open>pywintypes.error\<close>, which
  every failing Win32 call raises.
\<close>

datatype error =
    AttributeError
  | RuntimeError
  | TypeError
  | EOFError
  | PicklingError
  | UnpicklingError
  | WinError

text \<open>
  A call made by one thread either returns a value, raises, or waits for ever on a
  kernel object that nobody releases (\<open>WaitForSingleObject\<close> with \<open>INFINITE\<close>).
  Each outcome carries the state the call leaves behind.
\<close>

datatype ('r, 's) outcome = Returns 'r 's | Raises error 's | Blocks 's

fun state_of :: "('r, 's) outcome \<Rightarrow> 's" where
  "state_of (Returns r s) = s"
| "state_of (Raises e s) = s"
| "state_of (Blocks s) = s"

fun raised :: "('r, 's) outcome \<Rightarrow> error option" where
  "raised (Returns r s) = None"
| "raised (Raises e s) = Some e"
| "raised (Blocks s) = None"

fun returned :: "('r, 's) outcome \<Rightarrow> 'r option" where
  "returned (Returns r s) = Some r"
| "returned (Raises e s) = None"
| "returned (Blocks s) = None"

definition and_then ::
  "('s \<Rightarrow> ('a, 's) outcome) \<Rightarrow> ('a \<Rightarrow> 's \<Rightarrow> ('b, 's) outcome) \<Rightarrow> 's \<Rightarrow> ('b, 's) outcome" where
  "and_then m f s =
     (case m s of
        Returns a s' \<Rightarrow> f a s'
      | Raises e s' \<Rightarrow> Raises e s'
      | Blocks s' \<Rightarrow> Blocks s')"

text \<open>
  Python's \<open>try: body finally: fin\<close>: \<open>fin\<close> runs after \<open>body\<close> whether it returned or
  raised; an exception raised by \<open>fin\<close> itself replaces the pending one and skips the rest
  of \<open>fin\<close>.
\<close>

definition try_finally ::
  "('s \<Rightarrow> ('a, 's) outcome) \<Rightarrow> ('s \<Rightarrow> (unit, 's) outcome) \<Rightarrow> 's \<Rightarrow> ('a, 's) outcome" where
  "try_finally body fin s =
     (case body s of
        Returns a s' \<Rightarrow>
          (case fin s' of
             Returns u s'' \<Rightarrow> Returns a s''
           | Raises e s'' \<Rightarrow> Raises e s''
           | Blocks s'' \<Rightarrow> Blocks s'')
      | Raises e s' \<Rightarrow>
          (case fin s' of
             Returns u s'' \<Rightarrow> Raises e s''
           | Raises e' s'' \<Rightarrow> Raises e' s''
           | Blocks s'' \<Rightarrow> Blocks s'')
      | Blocks s' \<Rightarrow> Blocks s')"

text \<open>\<open>for _ in range(n): m\<close>\<close>

fun repeat :: "nat \<Rightarrow> ('s \<Rightarrow> (unit, 's) outcome) \<Rightarrow> 's \<Rightarrow> (unit, 's) outcome" where
  "repeat 0 m s = Returns () s"
| "repeat (Suc n) m s = and_then m (\<lambda>u. repeat n m) s"


section \<open>Class \<open>DataBase\<close>: the in-memory dictionary\<close>

record ('k, 'a) DataBase =
  data :: "'k \<rightharpoonup> 'a pyval"

text \<open>
  Lines 20 to 41. The methods mutate \<open>self.data\<close> and return a value; the model returns the value together
  with the object after the call. They are defined on the record scheme, so that they
  apply unchanged to objects of the subclasses, as inherited methods do.
\<close>

definition set_value ::
  "('k, 'a, 'm) DataBase_scheme \<Rightarrow> 'k \<Rightarrow> 'a pyval \<Rightarrow> bool \<times> ('k, 'a, 'm) DataBase_scheme" where
  "set_value self key val =
     (if data self key \<noteq> None then (False, self)
      else (True, self\<lparr>data := (data self)(key \<mapsto> val)\<rparr>))"

definition get_value :: "('k, 'a, 'm) DataBase_scheme \<Rightarrow> 'k \<Rightarrow> 'a pyval" where
  "get_value self key =
     (if data self key \<noteq> None
      then (case data self key of Some v \<Rightarrow> v | None \<Rightarrow> PyNone)
      else PyNone)"

definition delete ::
  "('k, 'a, 'm) DataBase_scheme \<Rightarrow> 'k \<Rightarrow> 'a pyval \<times> ('k, 'a, 'm) DataBase_scheme" where
  "delete self key =
     (if data self key \<noteq> None
      then ((case data self key of Some v \<Rightarrow> v | None \<Rightarrow> PyNone),
            self\<lparr>data := (data self)(key := None)\<rparr>)
      else (PyNone, self))"



section \<open>Kernel objects and files\<close>

text \<open>
  \<open>win32event\<close>, \<open>win32file\<close>, \<open>os.path\<close> and \<open>pickle\<close> are libraries outside the
  repository. The model follows one calling thread and gives each library call its
  documented behaviour.

  A Win32 mutex is free, owned by the calling thread (a recursion count: the owner may wait
  on it again without blocking) or owned by some other thread. A semaphore is a count of
  available slots and its maximum.
\<close>

datatype ownership = Free | Owned nat | Foreign

datatype kobj = MutexObj ownership | SemaphoreObj nat nat

text \<open>The attributes of the object that hold handles of kernel objects.\<close>

datatype gate = File_mutex | Mutex | Read_semaphore | Write_lock

datatype handle = FileHandle

text \<open>
  The calls on kernel objects and files that returned, in the order they were made, and the
  inherited in-memory methods the synchronized methods call. The trace is an observer: no
  function reads it.
\<close>

datatype event =
    Acquire gate
  | Release gate
  | CreateFile_ev
  | WriteFile_ev
  | ReadFile_ev
  | CloseHandle_ev
  | Call string

text \<open>
  What the source leaves to the libraries and to the operating system is a parameter: the
  encoding (\<open>pickle.dumps\<close>, \<open>pickle.loads\<close>, which raise on what they cannot encode or
  decode), whether a file call fails (\<open>Some e\<close>: it raises \<open>e\<close>), what \<open>CloseHandle(None)\<close>
  does, and the kernel objects that exist, when the constructor runs, under the three
  \<open>Global\<close> names that mode \<open>processes\<close> uses (\<open>DataMutex\<close> for the attribute \<open>mutex\<close>,
  \<open>ReadSemaphore\<close> for \<open>read_semaphore\<close>, \<open>WriteLock\<close> for \<open>write_lock\<close>), each in the state the
  calling thread finds it in.
\<close>

record ('k, 'a, 'b) env =
  pickle_dumps :: "('k \<rightharpoonup> 'a pyval) \<Rightarrow> error + 'b list"
  pickle_loads :: "'b list \<Rightarrow> error + ('k \<rightharpoonup> 'a pyval)"
  create_always_error :: "error option"
  open_existing_error :: "error option"
  write_error :: "error option"
  read_error :: "error option"
  close_none_error :: "error option"
  named_objects :: "gate \<rightharpoonup> kobj"


section \<open>Class \<open>SerializedDataBase\<close>\<close>

text \<open>
  The object (\<open>data\<close>, \<open>filename\<close>, and the kernel objects behind its handle attributes)
  together with the part of the world it touches: the files by name (\<open>fs\<close>, a list of
  bytes of type \<open>'b\<close> each) and the trace.
\<close>

record ('k, 'a, 'b) SerializedDataBase = "('k, 'a) DataBase" +
  filename :: string
  handles :: "gate \<rightharpoonup> kobj"
  fs :: "string \<rightharpoonup> 'b list"
  trace :: "event list"

text \<open>
  \<open>win32event.WaitForSingleObject(self.g, INFINITE)\<close>. An attribute that was never
  assigned raises \<open>AttributeError\<close>.
\<close>

definition WaitForSingleObject ::
  "gate \<Rightarrow> ('k, 'a, 'b, 'm) SerializedDataBase_scheme
     \<Rightarrow> (unit, ('k, 'a, 'b, 'm) SerializedDataBase_scheme) outcome" where
  "WaitForSingleObject g s =
     (case handles s g of
        None \<Rightarrow> Raises AttributeError s
      | Some (MutexObj Free) \<Rightarrow>
          Returns () (s\<lparr>handles := (handles s)(g \<mapsto> MutexObj (Owned 1)),
                        trace := trace s @ [Acquire g]\<rparr>)
      | Some (MutexObj (Owned n)) \<Rightarrow>
          Returns () (s\<lparr>handles := (handles s)(g \<mapsto> MutexObj (Owned (Suc n))),
                        trace := trace s @ [Acquire g]\<rparr>)
      | Some (MutexObj Foreign) \<Rightarrow> Blocks s
      | Some (SemaphoreObj c mx) \<Rightarrow>
          (if c = 0 then Blocks s
           else Returns () (s\<lparr>handles := (handles s)(g \<mapsto> SemaphoreObj (c - 1) mx),
                             trace := trace s @ [Acquire g]\<rparr>)))"

text \<open>\<open>win32event.ReleaseMutex(self.g)\<close>: fails unless the caller owns the mutex.\<close>

definition ReleaseMutex ::
  "gate \<Rightarrow> ('k, 'a, 'b, 'm) SerializedDataBase_scheme
     \<Rightarrow> (unit, ('k, 'a, 'b, 'm) SerializedDataBase_scheme) outcome" where
  "ReleaseMutex g s =
     (case handles s g of
        None \<Rightarrow> Raises AttributeError s
      | Some (MutexObj (Owned n)) \<Rightarrow>
          Returns () (s\<lparr>handles := (handles s)(g \<mapsto> MutexObj (if n \<le> 1 then Free else Owned (n - 1))),
                        trace := trace s @ [Release g]\<rparr>)
      | Some (MutexObj Free) \<Rightarrow> Raises WinError s
      | Some (MutexObj Foreign) \<Rightarrow> Raises WinError s
      | Some (SemaphoreObj c mx) \<Rightarrow> Raises WinError s)"

text \<open>
  \<open>win32event.ReleaseSemaphore(self.g, 1)\<close>: fails when the count would pass the maximum.
\<close>

definition ReleaseSemaphore ::
  "gate \<Rightarrow> ('k, 'a, 'b, 'm) SerializedDataBase_scheme
     \<Rightarrow> (unit, ('k, 'a, 'b, 'm) SerializedDataBase_scheme) outcome" where
  "ReleaseSemaphore g s =
     (case handles s g of
        None \<Rightarrow> Raises AttributeError s
      | Some (SemaphoreObj c mx) \<Rightarrow>
          (if c + 1 \<le> mx
           then Returns () (s\<lparr>handles := (handles s)(g \<mapsto> SemaphoreObj (c + 1) mx),
                             trace := trace s @ [Release g]\<rparr>)
           else Raises WinError s)
      | Some (MutexObj m) \<Rightarrow> Raises WinError s)"

text \<open>
  \<open>win32file.CreateFile(self.filename, GENERIC_WRITE, 0, None, CREATE_ALWAYS, 0, None)\<close>:
  creates the file, or truncates it when it exists.
\<close>

definition CreateFile_CREATE_ALWAYS ::
  "('k, 'a, 'b) env \<Rightarrow> ('k, 'a, 'b, 'm) SerializedDataBase_scheme
     \<Rightarrow> (handle, ('k, 'a, 'b, 'm) SerializedDataBase_scheme) outcome" where
  "CreateFile_CREATE_ALWAYS env s =
     (case create_always_error env of
        Some e \<Rightarrow> Raises e s
      | None \<Rightarrow>
          Returns FileHandle (s\<lparr>fs := (fs s)(filename s \<mapsto> []),
                                trace := trace s @ [CreateFile_ev]\<rparr>))"

text \<open>
  \<open>win32file.CreateFile(self.filename, GENERIC_READ, 0, None, OPEN_EXISTING, 0, None)\<close>:
  fails when the file does not exist.
\<close>

definition CreateFile_OPEN_EXISTING ::
  "('k, 'a, 'b) env \<Rightarrow> ('k, 'a, 'b, 'm) SerializedDataBase_scheme
     \<Rightarrow> (handle, ('k, 'a, 'b, 'm) SerializedDataBase_scheme) outcome" where
  "CreateFile_OPEN_EXISTING env s =
     (case fs s (filename s) of
        None \<Rightarrow> Raises WinError s
      | Some content \<Rightarrow>
          (case open_existing_error env of
             Some e \<Rightarrow> Raises e s
           | None \<Rightarrow> Returns FileHandle (s\<lparr>trace := trace s @ [CreateFile_ev]\<rparr>)))"

text \<open>\<open>win32file.WriteFile(handle, data)\<close> on the handle of the file just opened.\<close>

definition WriteFile ::
  "('k, 'a, 'b) env \<Rightarrow> handle \<Rightarrow> 'b list \<Rightarrow> ('k, 'a, 'b, 'm) SerializedDataBase_scheme
     \<Rightarrow> (unit, ('k, 'a, 'b, 'm) SerializedDataBase_scheme) outcome" where
  "WriteFile env h bytes s =
     (case write_error env of
        Some e \<Rightarrow> Raises e s
      | None \<Rightarrow>
          Returns () (s\<lparr>fs := (fs s)(filename s \<mapsto>
                            (case fs s (filename s) of None \<Rightarrow> [] | Some content \<Rightarrow> content) @ bytes),
                        trace := trace s @ [WriteFile_ev]\<rparr>))"

text \<open>\<open>os.path.getsize(self.filename)\<close>, called only on a file that exists.\<close>

definition getsize :: "('k, 'a, 'b, 'm) SerializedDataBase_scheme \<Rightarrow> nat" where
  "getsize s = (case fs s (filename s) of None \<Rightarrow> 0 | Some content \<Rightarrow> length content)"

text \<open>\<open>win32file.ReadFile(handle, n)\<close>: the second component, the bytes read.\<close>

definition ReadFile ::
  "('k, 'a, 'b) env \<Rightarrow> handle \<Rightarrow> nat \<Rightarrow> ('k, 'a, 'b, 'm) SerializedDataBase_scheme
     \<Rightarrow> ('b list, ('k, 'a, 'b, 'm) SerializedDataBase_scheme) outcome" where
  "ReadFile env h n s =
     (case read_error env of
        Some e \<Rightarrow> Raises e s
      | None \<Rightarrow>
          Returns (take n (case fs s (filename s) of None \<Rightarrow> [] | Some content \<Rightarrow> content))
                  (s\<lparr>trace := trace s @ [ReadFile_ev]\<rparr>))"

text \<open>\<open>win32file.CloseHandle(handle)\<close>, where \<open>handle\<close> may still be \<open>None\<close>.\<close>

definition CloseHandle ::
  "('k, 'a, 'b) env \<Rightarrow> handle option \<Rightarrow> ('k, 'a, 'b, 'm) SerializedDataBase_scheme
     \<Rightarrow> (unit, ('k, 'a, 'b, 'm) SerializedDataBase_scheme) outcome" where
  "CloseHandle env h s =
     (case h of
        None \<Rightarrow> (case close_none_error env of Some e \<Rightarrow> Raises e s | None \<Rightarrow> Returns () s)
      | Some fh \<Rightarrow> Returns () (s\<lparr>trace := trace s @ [CloseHandle_ev]\<rparr>))"

text \<open>
  \<open>save\<close> (lines 54 to 67). The wait on the file mutex is outside the \<open>try\<close>. The \<open>finally\<close> block closes
  \<open>handle\<close>, which is still \<open>None\<close> when \<open>CreateFile\<close> raised, and then releases the mutex.
\<close>

definition save_finally ::
  "('k, 'a, 'b) env \<Rightarrow> handle option \<Rightarrow> ('k, 'a, 'b, 'm) SerializedDataBase_scheme
     \<Rightarrow> (unit, ('k, 'a, 'b, 'm) SerializedDataBase_scheme) outcome" where
  "save_finally env h = and_then (CloseHandle env h) (\<lambda>u. ReleaseMutex File_mutex)"

definition save ::
  "('k, 'a, 'b) env \<Rightarrow> ('k, 'a, 'b, 'm) SerializedDataBase_scheme
     \<Rightarrow> (unit, ('k, 'a, 'b, 'm) SerializedDataBase_scheme) outcome" where
  "save env =
     and_then (WaitForSingleObject File_mutex) (\<lambda>u s.
       case CreateFile_CREATE_ALWAYS env s of
         Returns h s' \<Rightarrow>
           try_finally
             (\<lambda>t. case pickle_dumps env (data t) of
                     Inl e \<Rightarrow> Raises e t
                   | Inr bytes \<Rightarrow> WriteFile env h bytes t)
             (save_finally env (Some h)) s'
       | Raises e s' \<Rightarrow> try_finally (Raises e) (save_finally env None) s'
       | Blocks s' \<Rightarrow> Blocks s')"

text \<open>
  \<open>load\<close> (lines 69 to 84). When \<open>ReadFile\<close> or \<open>pickle.loads\<close> raises, \<open>CloseHandle\<close> is skipped; the
  \<open>finally\<close> block releases the file mutex only.
\<close>

definition load ::
  "('k, 'a, 'b) env \<Rightarrow> ('k, 'a, 'b, 'm) SerializedDataBase_scheme
     \<Rightarrow> (unit, ('k, 'a, 'b, 'm) SerializedDataBase_scheme) outcome" where
  "load env =
     and_then (WaitForSingleObject File_mutex) (\<lambda>u.
       try_finally
         (\<lambda>s. if fs s (filename s) \<noteq> None
               then and_then (CreateFile_OPEN_EXISTING env) (\<lambda>h.
                    and_then (\<lambda>t. ReadFile env h (getsize t) t) (\<lambda>bytes t.
                      case pickle_loads env bytes of
                        Inl e \<Rightarrow> Raises e t
                      | Inr d \<Rightarrow> CloseHandle env (Some h) (t\<lparr>data := d\<rparr>))) s
               else Returns () (s\<lparr>data := Map.empty\<rparr>))
         (ReleaseMutex File_mutex))"

text \<open>
  \<open>SerializedDataBase.__init__(self, filename)\<close>: \<open>self\<close> is the object being
  initialised; the mutex is created unnamed and not owned.
\<close>

definition SerializedDataBase_init ::
  "('k, 'a, 'b) env \<Rightarrow> string \<Rightarrow> ('k, 'a, 'b, 'm) SerializedDataBase_scheme
     \<Rightarrow> (unit, ('k, 'a, 'b, 'm) SerializedDataBase_scheme) outcome" where
  "SerializedDataBase_init env fname self =
     load env (self\<lparr>data := Map.empty, filename := fname,
                     handles := (handles self)(File_mutex \<mapsto> MutexObj Free)\<rparr>)"


section \<open>Class \<open>SynchronizedDataBase\<close>\<close>

record ('k, 'a, 'b) SynchronizedDataBase = "('k, 'a, 'b) SerializedDataBase" +
  read_limit :: nat

text \<open>
  \<open>self.g = win32event.CreateMutex(None, False, name)\<close>. Without a name (\<open>existing\<close> is
  \<open>None\<close>) and with a name that no object has, a new mutex is created, not owned. With the
  name of a mutex that exists, that mutex is opened in the state it has. With the name of
  an object of another kind the call fails.
\<close>

definition CreateMutex ::
  "kobj option \<Rightarrow> gate \<Rightarrow> ('k, 'a, 'b, 'm) SerializedDataBase_scheme
     \<Rightarrow> (unit, ('k, 'a, 'b, 'm) SerializedDataBase_scheme) outcome" where
  "CreateMutex existing g s =
     (case existing of
        None \<Rightarrow> Returns () (s\<lparr>handles := (handles s)(g \<mapsto> MutexObj Free)\<rparr>)
      | Some (MutexObj m) \<Rightarrow> Returns () (s\<lparr>handles := (handles s)(g \<mapsto> MutexObj m)\<rparr>)
      | Some (SemaphoreObj c mx) \<Rightarrow> Raises WinError s)"

text \<open>
  \<open>self.g = win32event.CreateSemaphore(None, initial, maximum, name)\<close>, likewise: the counts
  are used only when the semaphore is created; a semaphore that exists under the name is
  opened with the count and the maximum it has.
\<close>

definition CreateSemaphore ::
  "kobj option \<Rightarrow> nat \<Rightarrow> nat \<Rightarrow> gate \<Rightarrow> ('k, 'a, 'b, 'm) SerializedDataBase_scheme
     \<Rightarrow> (unit, ('k, 'a, 'b, 'm) SerializedDataBase_scheme) outcome" where
  "CreateSemaphore existing initial maximum g s =
     (case existing of
        None \<Rightarrow> Returns () (s\<lparr>handles := (handles s)(g \<mapsto> SemaphoreObj initial maximum)\<rparr>)
      | Some (SemaphoreObj c mx) \<Rightarrow> Returns () (s\<lparr>handles := (handles s)(g \<mapsto> SemaphoreObj c mx)\<rparr>)
      | Some (MutexObj m) \<Rightarrow> Raises WinError s)"

text \<open>
  \<open>__init__(self, filename, mode)\<close> (lines 91 to 104). In mode \<open>threads\<close> the three objects
  are created without a name; in mode \<open>processes\<close> under their \<open>Global\<close> names, so that a store
  constructed while another process has one shares its objects, in whatever state they are.
  A mode that is neither string creates no gate.
\<close>

definition SynchronizedDataBase_init ::
  "('k, 'a, 'b) env \<Rightarrow> string \<Rightarrow> string \<Rightarrow> ('k, 'a, 'b) SynchronizedDataBase
     \<Rightarrow> (unit, ('k, 'a, 'b) SynchronizedDataBase) outcome" where
  "SynchronizedDataBase_init env fname mode =
     and_then (SerializedDataBase_init env fname) (\<lambda>u.
     and_then (\<lambda>self. Returns () (self\<lparr>read_limit := 10\<rparr>)) (\<lambda>u self.
       if mode = ''threads'' then
         and_then (CreateMutex None Mutex) (\<lambda>u.
         and_then (\<lambda>t. CreateSemaphore None (read_limit t) (read_limit t) Read_semaphore t) (\<lambda>u.
         CreateMutex None Write_lock)) self
       else if mode = ''processes'' then
         and_then (CreateMutex (named_objects env Mutex) Mutex) (\<lambda>u.
         and_then (\<lambda>t. CreateSemaphore (named_objects env Read_semaphore)
                          (read_limit t) (read_limit t) Read_semaphore t) (\<lambda>u.
         CreateMutex (named_objects env Write_lock) Write_lock)) self
       else Returns () self))"

text \<open>
  The object before \<open>__init__\<close> runs, in a world with the given files: no attribute is
  assigned yet (\<open>read_limit\<close> is read by no code before line 93 assigns it).
\<close>

definition new_object :: "(string \<rightharpoonup> 'b list) \<Rightarrow> ('k, 'a, 'b) SynchronizedDataBase" where
  "new_object files =
     \<lparr>data = Map.empty, filename = [], handles = Map.empty, fs = files, trace = [],
      read_limit = 0\<rparr>"

definition SynchronizedDataBase_new ::
  "('k, 'a, 'b) env \<Rightarrow> string \<Rightarrow> string \<Rightarrow> (string \<rightharpoonup> 'b list)
     \<Rightarrow> (unit, ('k, 'a, 'b) SynchronizedDataBase) outcome" where
  "SynchronizedDataBase_new env fname mode files =
     SynchronizedDataBase_init env fname mode (new_object files)"

text \<open>
  A call of an inherited in-memory method (\<open>super().set_value(key, value)\<close>,
  \<open>super().get_value(key)\<close>), noted in the trace.
\<close>

definition call ::
  "string \<Rightarrow> (('k, 'a, 'b) SynchronizedDataBase \<Rightarrow> 'r \<times> ('k, 'a, 'b) SynchronizedDataBase)
     \<Rightarrow> ('k, 'a, 'b) SynchronizedDataBase \<Rightarrow> ('r, ('k, 'a, 'b) SynchronizedDataBase) outcome" where
  "call name f s = (case f s of (r, s') \<Rightarrow> Returns r (s'\<lparr>trace := trace s' @ [Call name]\<rparr>))"

text \<open>\<open>value_set\<close> (lines 106 to 126) and \<open>value_get\<close> (lines 128 to 141).\<close>

definition value_set ::
  "('k, 'a, 'b) env \<Rightarrow> 'k \<Rightarrow> 'a pyval \<Rightarrow> ('k, 'a, 'b) SynchronizedDataBase
     \<Rightarrow> (bool, ('k, 'a, 'b) SynchronizedDataBase) outcome" where
  "value_set env key val =
     and_then (WaitForSingleObject Write_lock) (\<lambda>u.
     and_then (WaitForSingleObject Mutex) (\<lambda>u.
     and_then (\<lambda>s. repeat (read_limit s) (WaitForSingleObject Read_semaphore) s) (\<lambda>u.
     and_then (call ''set_value'' (\<lambda>s. set_value s key val)) (\<lambda>result.
     and_then (save env) (\<lambda>u.
     and_then (\<lambda>s. repeat (read_limit s) (ReleaseSemaphore Read_semaphore) s) (\<lambda>u.
     and_then (ReleaseMutex Mutex) (\<lambda>u.
     and_then (ReleaseMutex Write_lock) (\<lambda>u.
     Returns result))))))))"

definition value_get ::
  "('k, 'a, 'b) env \<Rightarrow> 'k \<Rightarrow> ('k, 'a, 'b) SynchronizedDataBase
     \<Rightarrow> ('a pyval, ('k, 'a, 'b) SynchronizedDataBase) outcome" where
  "value_get env key =
     and_then (WaitForSingleObject Read_semaphore) (\<lambda>u.
     and_then (load env) (\<lambda>u.
     and_then (call ''get_value'' (\<lambda>s. (get_value s key, s))) (\<lambda>data.
     and_then (ReleaseSemaphore Read_semaphore) (\<lambda>u.
     Returns data))))"

text \<open>
  \<open>value_delete\<close> (lines 144 to 164) is written at module level, outside the class body:
  it is a plain function of two arguments and no method of any class. Called with an
  object as \<open>self\<close> it takes the gates and then evaluates \<open>super()\<close>, which raises
  \<open>RuntimeError\<close> in a function that is not defined in a class; the statements after it
  never run.
\<close>

definition value_delete ::
  "'k \<Rightarrow> ('k, 'a, 'b) SynchronizedDataBase
     \<Rightarrow> ('a pyval, ('k, 'a, 'b) SynchronizedDataBase) outcome" where
  "value_delete key =
     and_then (WaitForSingleObject Write_lock) (\<lambda>u.
     and_then (WaitForSingleObject Mutex) (\<lambda>u.
     and_then (\<lambda>s. repeat (read_limit s) (WaitForSingleObject Read_semaphore) s) (\<lambda>u.
     Raises RuntimeError)))"


section \<open>Preconditions used by the theorems\<close>

text \<open>
  The calling thread holds nothing and nobody else does: the three mutexes are free and every
  slot of the read semaphore is available. This is the state the constructor leaves when it
  creates the objects, and
  the state between two calls when no other thread is active.
\<close>

definition quiescent :: "('k, 'a, 'b) SynchronizedDataBase \<Rightarrow> bool" where
  "quiescent s \<longleftrightarrow>
     handles s File_mutex = Some (MutexObj Free) \<and>
     handles s Mutex = Some (MutexObj Free) \<and>
     handles s Write_lock = Some (MutexObj Free) \<and>
     handles s Read_semaphore = Some (SemaphoreObj (read_limit s) (read_limit s))"

text \<open>No file call fails.\<close>

definition io_ok :: "('k, 'a, 'b) env \<Rightarrow> bool" where
  "io_ok env \<longleftrightarrow>
     create_always_error env = None \<and> open_existing_error env = None \<and>
     write_error env = None \<and> read_error env = None"


text \<open>
  The state in which \<open>value_set\<close>, called in a quiescent state, reaches \<open>self.save()\<close>: the
  write lock and the mutex are owned, the semaphore is drained, the pair is inserted if the
  key was absent.
\<close>

definition at_save ::
  "'k \<Rightarrow> 'a pyval \<Rightarrow> ('k, 'a, 'b) SynchronizedDataBase \<Rightarrow> ('k, 'a, 'b) SynchronizedDataBase" where
  "at_save key val s =
     (snd (set_value s key val))
       \<lparr>handles := (handles s)
          (Write_lock \<mapsto> MutexObj (Owned 1),
           Mutex \<mapsto> MutexObj (Owned 1),
           Read_semaphore \<mapsto> SemaphoreObj 0 (read_limit s)),
        trace := trace s @ [Acquire Write_lock, Acquire Mutex]
          @ replicate (read_limit s) (Acquire Read_semaphore) @ [Call ''set_value'']\<rparr>"

text \<open>
  The state in which \<open>value_get\<close>, called in a quiescent state, reaches \<open>self.load()\<close>: one
  slot of the semaphore is taken.
\<close>

definition at_load :: "('k, 'a, 'b) SynchronizedDataBase \<Rightarrow> ('k, 'a, 'b) SynchronizedDataBase" where
  "at_load s =
     s\<lparr>handles := (handles s)(Read_semaphore \<mapsto> SemaphoreObj (read_limit s - 1) (read_limit s)),
       trace := trace s @ [Acquire Read_semaphore]\<rparr>"


section \<open>Example inputs\<close>

text \<open>
  A stand-in for the libraries when everything works: one unit of file content holds a
  whole dictionary, so that decoding inverts encoding; empty content and anything longer do
  not decode. No file call fails, \<open>CloseHandle(None)\<close> raises, and no named kernel object
  exists yet.
\<close>

definition ok_env :: "('k, 'a, 'k \<rightharpoonup> 'a pyval) env" where
  "ok_env =
     \<lparr>pickle_dumps = (\<lambda>d. Inr [d]),
      pickle_loads = (\<lambda>bytes. case bytes of
                               [] \<Rightarrow> Inl EOFError
                             | [d] \<Rightarrow> Inr d
                             | _ \<Rightarrow> Inl UnpicklingError),
      create_always_error = None,
      open_existing_error = None,
      write_error = None,
      read_error = None,
      close_none_error = Some TypeError,
      named_objects = Map.empty\<rparr>"

text \<open>The same libraries when \<open>WriteFile\<close> fails (a full disk).\<close>

definition full_disk_env :: "('k, 'a, 'k \<rightharpoonup> 'a pyval) env" where
  "full_disk_env = ok_env\<lparr>write_error := Some WinError\<rparr>"

text \<open>
  The same libraries while a writer of another process is inside \<open>value_set\<close>: the named
  objects exist, both mutexes are owned by that writer and it holds all 10 slots.
\<close>

definition busy_env :: "('k, 'a, 'k \<rightharpoonup> 'a pyval) env" where
  "busy_env =
     ok_env\<lparr>named_objects :=
       [Mutex \<mapsto> MutexObj Foreign,
        Read_semaphore \<mapsto> SemaphoreObj 0 10,
        Write_lock \<mapsto> MutexObj Foreign]\<rparr>"

text \<open>
  \<open>db0 = SynchronizedDataBase('test.pkl', 'threads')\<close> where no file exists;
  \<open>db1\<close> is \<open>db0\<close> after \<open>db0.value_set(0, 1)\<close>.
\<close>

definition db0 :: "(nat, int, nat \<rightharpoonup> int pyval) SynchronizedDataBase" where
  "db0 = state_of (SynchronizedDataBase_new ok_env ''test.pkl'' ''threads'' Map.empty)"

definition db1 :: "(nat, int, nat \<rightharpoonup> int pyval) SynchronizedDataBase" where
  "db1 = state_of (value_set ok_env 0 (Val 1) db0)"

text \<open>
  The same object where the snapshot file exists and is empty: what a \<open>save\<close> leaves behind
  when it fails after \<open>CreateFile\<close> truncated the file.
\<close>

definition db_truncated :: "(nat, int, nat \<rightharpoonup> int pyval) SynchronizedDataBase" where
  "db_truncated = db0\<lparr>fs := [''test.pkl'' \<mapsto> []]\<rparr>"

text \<open>The same object where the snapshot holds key 0 bound to \<open>None\<close>.\<close>

definition db_none :: "(nat, int, nat \<rightharpoonup> int pyval) SynchronizedDataBase" where
  "db_none = db0\<lparr>fs := [''test.pkl'' \<mapsto> [[0 \<mapsto> PyNone]]]\<rparr>"

text \<open>
  \<open>SynchronizedDataBase('test.pkl', 'processes')\<close>, constructed while the writer of another
  process is inside \<open>value_set\<close>, and constructed when no named object exists.
\<close>

definition db_shared :: "(nat, int, nat \<rightharpoonup> int pyval) SynchronizedDataBase" where
  "db_shared = state_of (SynchronizedDataBase_new busy_env ''test.pkl'' ''processes'' Map.empty)"

definition db_first :: "(nat, int, nat \<rightharpoonup> int pyval) SynchronizedDataBase" where
  "db_first = state_of (SynchronizedDataBase_new ok_env ''test.pkl'' ''processes'' Map.empty)"


section \<open>Outcomes of the library calls and of the methods\<close>


lemma and_then_Returns:
  "and_then m f s = Returns r s' \<Longrightarrow> \<exists>a t. m s = Returns a t \<and> f a t = Returns r s'"
  by (simp add: and_then_def split: outcome.splits)

lemma and_then_step: "m s = Returns a t \<Longrightarrow> and_then m f s = f a t"
  by (simp add: and_then_def)

lemma Wait_Returns:
  "WaitForSingleObject g s = Returns u s' \<Longrightarrow>
     \<exists>h. s' = s\<lparr>handles := (handles s)(g := h), trace := trace s @ [Acquire g]\<rparr>"
  by (auto simp: WaitForSingleObject_def split: option.splits kobj.splits ownership.splits if_splits)

lemma ReleaseMutex_Returns:
  "ReleaseMutex g s = Returns u s' \<Longrightarrow>
     \<exists>h. s' = s\<lparr>handles := (handles s)(g := h), trace := trace s @ [Release g]\<rparr>"
  by (auto simp: ReleaseMutex_def split: option.splits kobj.splits ownership.splits if_splits)

lemma ReleaseSemaphore_Returns:
  "ReleaseSemaphore g s = Returns u s' \<Longrightarrow>
     \<exists>h. s' = s\<lparr>handles := (handles s)(g := h), trace := trace s @ [Release g]\<rparr>"
  by (auto simp: ReleaseSemaphore_def split: option.splits kobj.splits ownership.splits if_splits)

lemma repeat_Returns:
  assumes step: "\<And>s u s'. m s = Returns u s' \<Longrightarrow>
     \<exists>h. s' = s\<lparr>handles := (handles s)(g := h), trace := trace s @ [ev]\<rparr>"
  shows "repeat n m s = Returns u s' \<Longrightarrow>
     \<exists>h. s' = s\<lparr>handles := (handles s)(g := h), trace := trace s @ replicate n ev\<rparr>"
proof (induction n arbitrary: s)
  case 0
  then have "s' = s\<lparr>handles := (handles s)(g := handles s g), trace := trace s @ replicate 0 ev\<rparr>"
    by simp
  then show ?case by blast
next
  case (Suc n)
  from Suc.prems obtain a t where a: "m s = Returns a t" and b: "repeat n m t = Returns u s'"
    by (auto dest: and_then_Returns)
  from step [OF a] obtain h where t: "t = s\<lparr>handles := (handles s)(g := h), trace := trace s @ [ev]\<rparr>"
    by blast
  from Suc.IH [OF b] obtain h' where "s' = t\<lparr>handles := (handles t)(g := h'), trace := trace t @ replicate n ev\<rparr>"
    by blast
  with t have "s' = s\<lparr>handles := (handles s)(g := h'), trace := trace s @ replicate (Suc n) ev\<rparr>"
    by simp
  then show ?case by blast
qed

lemma drain_Returns:
  "repeat n (WaitForSingleObject g) s = Returns u s' \<Longrightarrow>
     \<exists>h. s' = s\<lparr>handles := (handles s)(g := h), trace := trace s @ replicate n (Acquire g)\<rparr>"
  by (rule repeat_Returns [where m = "WaitForSingleObject g"]) (rule Wait_Returns)

lemma refill_Returns:
  "repeat n (ReleaseSemaphore g) s = Returns u s' \<Longrightarrow>
     \<exists>h. s' = s\<lparr>handles := (handles s)(g := h), trace := trace s @ replicate n (Release g)\<rparr>"
  by (rule repeat_Returns [where m = "ReleaseSemaphore g"]) (rule ReleaseSemaphore_Returns)

lemma save_Returns:
  "save env s = Returns u s' \<Longrightarrow>
     \<exists>bytes h. pickle_dumps env (data s) = Inr bytes \<and>
       s' = s\<lparr>handles := (handles s)(File_mutex := h),
              fs := (fs s)(filename s \<mapsto> bytes),
              trace := trace s @ [Acquire File_mutex, CreateFile_ev, WriteFile_ev, CloseHandle_ev,
                                  Release File_mutex]\<rparr>"
  unfolding save_def save_finally_def
  apply (drule and_then_Returns)
  apply (clarsimp)
  apply (drule Wait_Returns)
  apply (clarsimp simp: CreateFile_CREATE_ALWAYS_def try_finally_def and_then_def CloseHandle_def WriteFile_def
       split: option.splits outcome.splits sum.splits)
  apply (drule ReleaseMutex_Returns)
  apply clarsimp
  subgoal for bytes h by (rule exI [of _ h]) simp
  done

lemma call_Returns:
  "call name f s = Returns r s' \<Longrightarrow> r = fst (f s) \<and> s' = (snd (f s))\<lparr>trace := trace (snd (f s)) @ [Call name]\<rparr>"
  by (auto simp: call_def split: prod.splits)

lemma value_set_Returns:
  assumes run: "value_set env key v s = Returns r s'"
  shows "r = fst (set_value s key v) \<and>
         data s' = data (snd (set_value s key v)) \<and>
         (\<exists>bytes. pickle_dumps env (data s') = Inr bytes \<and> fs s' = (fs s)(filename s \<mapsto> bytes)) \<and>
         filename s' = filename s \<and> read_limit s' = read_limit s \<and>
         trace s' = trace s @ [Acquire Write_lock, Acquire Mutex]
           @ replicate (read_limit s) (Acquire Read_semaphore)
           @ [Call ''set_value'',
              Acquire File_mutex, CreateFile_ev, WriteFile_ev, CloseHandle_ev, Release File_mutex]
           @ replicate (read_limit s) (Release Read_semaphore)
           @ [Release Mutex, Release Write_lock]"
proof -
  from run obtain u1 s1 where
      w1: "WaitForSingleObject Write_lock s = Returns u1 s1" and
      r1: "and_then (WaitForSingleObject Mutex) (\<lambda>u.
             and_then (\<lambda>s. repeat (read_limit s) (WaitForSingleObject Read_semaphore) s) (\<lambda>u.
             and_then (call ''set_value'' (\<lambda>s. set_value s key v)) (\<lambda>result.
             and_then (save env) (\<lambda>u.
             and_then (\<lambda>s. repeat (read_limit s) (ReleaseSemaphore Read_semaphore) s) (\<lambda>u.
             and_then (ReleaseMutex Mutex) (\<lambda>u.
             and_then (ReleaseMutex Write_lock) (\<lambda>u.
             Returns result))))))) s1 = Returns r s'"
    unfolding value_set_def by (blast dest: and_then_Returns)
  from r1 obtain u2 s2 where
      w2: "WaitForSingleObject Mutex s1 = Returns u2 s2" and
      r2: "and_then (\<lambda>s. repeat (read_limit s) (WaitForSingleObject Read_semaphore) s) (\<lambda>u.
             and_then (call ''set_value'' (\<lambda>s. set_value s key v)) (\<lambda>result.
             and_then (save env) (\<lambda>u.
             and_then (\<lambda>s. repeat (read_limit s) (ReleaseSemaphore Read_semaphore) s) (\<lambda>u.
             and_then (ReleaseMutex Mutex) (\<lambda>u.
             and_then (ReleaseMutex Write_lock) (\<lambda>u.
             Returns result)))))) s2 = Returns r s'"
    by (blast dest: and_then_Returns)
  from r2 obtain u3 s3 where
      w3: "repeat (read_limit s2) (WaitForSingleObject Read_semaphore) s2 = Returns u3 s3" and
      r3: "and_then (call ''set_value'' (\<lambda>s. set_value s key v)) (\<lambda>result.
             and_then (save env) (\<lambda>u.
             and_then (\<lambda>s. repeat (read_limit s) (ReleaseSemaphore Read_semaphore) s) (\<lambda>u.
             and_then (ReleaseMutex Mutex) (\<lambda>u.
             and_then (ReleaseMutex Write_lock) (\<lambda>u.
             Returns result))))) s3 = Returns r s'"
    by (blast dest: and_then_Returns)
  from r3 obtain res s4 where
      w4: "call ''set_value'' (\<lambda>s. set_value s key v) s3 = Returns res s4" and
      r4: "and_then (save env) (\<lambda>u.
             and_then (\<lambda>s. repeat (read_limit s) (ReleaseSemaphore Read_semaphore) s) (\<lambda>u.
             and_then (ReleaseMutex Mutex) (\<lambda>u.
             and_then (ReleaseMutex Write_lock) (\<lambda>u.
             Returns res)))) s4 = Returns r s'"
    by (blast dest: and_then_Returns)
  from r4 obtain u5 s5 where
      w5: "save env s4 = Returns u5 s5" and
      r5: "and_then (\<lambda>s. repeat (read_limit s) (ReleaseSemaphore Read_semaphore) s) (\<lambda>u.
             and_then (ReleaseMutex Mutex) (\<lambda>u.
             and_then (ReleaseMutex Write_lock) (\<lambda>u.
             Returns res))) s5 = Returns r s'"
    by (blast dest: and_then_Returns)
  from r5 obtain u6 s6 where
      w6: "repeat (read_limit s5) (ReleaseSemaphore Read_semaphore) s5 = Returns u6 s6" and
      r6: "and_then (ReleaseMutex Mutex) (\<lambda>u.
             and_then (ReleaseMutex Write_lock) (\<lambda>u.
             Returns res)) s6 = Returns r s'"
    by (blast dest: and_then_Returns)
  from r6 obtain u7 s7 where
      w7: "ReleaseMutex Mutex s6 = Returns u7 s7" and
      r7: "and_then (ReleaseMutex Write_lock) (\<lambda>u. Returns res) s7 = Returns r s'"
    by (blast dest: and_then_Returns)
  from r7 obtain u8 where
      w8: "ReleaseMutex Write_lock s7 = Returns u8 s'" and res: "res = r"
    by (auto dest: and_then_Returns)
  from Wait_Returns [OF w1] obtain h1 where
    s1: "s1 = s\<lparr>handles := (handles s)(Write_lock := h1), trace := trace s @ [Acquire Write_lock]\<rparr>"
    by blast
  from Wait_Returns [OF w2] obtain h2 where
    s2: "s2 = s1\<lparr>handles := (handles s1)(Mutex := h2), trace := trace s1 @ [Acquire Mutex]\<rparr>"
    by blast
  from drain_Returns [OF w3] obtain h3 where
    s3: "s3 = s2\<lparr>handles := (handles s2)(Read_semaphore := h3),
                  trace := trace s2 @ replicate (read_limit s2) (Acquire Read_semaphore)\<rparr>"
    by blast
  from call_Returns [OF w4] have
    s4: "res = fst (set_value s3 key v)"
        "s4 = (snd (set_value s3 key v))\<lparr>trace := trace (snd (set_value s3 key v)) @ [Call ''set_value'']\<rparr>"
    by simp_all
  from save_Returns [OF w5] obtain bytes h5 where
    dumps: "pickle_dumps env (data s4) = Inr bytes" and
    s5: "s5 = s4\<lparr>handles := (handles s4)(File_mutex := h5),
                  fs := (fs s4)(filename s4 \<mapsto> bytes),
                  trace := trace s4 @ [Acquire File_mutex, CreateFile_ev, WriteFile_ev, CloseHandle_ev,
                                       Release File_mutex]\<rparr>"
    by blast
  from refill_Returns [OF w6] obtain h6 where
    s6: "s6 = s5\<lparr>handles := (handles s5)(Read_semaphore := h6),
                  trace := trace s5 @ replicate (read_limit s5) (Release Read_semaphore)\<rparr>"
    by blast
  from ReleaseMutex_Returns [OF w7] obtain h7 where
    s7: "s7 = s6\<lparr>handles := (handles s6)(Mutex := h7), trace := trace s6 @ [Release Mutex]\<rparr>"
    by blast
  from ReleaseMutex_Returns [OF w8] obtain h8 where
    s8: "s' = s7\<lparr>handles := (handles s7)(Write_lock := h8), trace := trace s7 @ [Release Write_lock]\<rparr>"
    by blast
  have d3: "data s3 = data s" "fs s3 = fs s" "filename s3 = filename s" "read_limit s3 = read_limit s"
       "read_limit s2 = read_limit s"
       "trace s3 = trace s @ [Acquire Write_lock, Acquire Mutex] @ replicate (read_limit s) (Acquire Read_semaphore)"
    by (simp_all add: s1 s2 s3)
  have sv: "fst (set_value s3 key v) = fst (set_value s key v)"
       "data (snd (set_value s3 key v)) = data (snd (set_value s key v))"
       "fs (snd (set_value s3 key v)) = fs s" "filename (snd (set_value s3 key v)) = filename s"
       "read_limit (snd (set_value s3 key v)) = read_limit s"
       "trace (snd (set_value s3 key v)) = trace s3"
    by (simp_all add: set_value_def d3)
  have d4: "data s4 = data (snd (set_value s key v))" "fs s4 = fs s" "filename s4 = filename s"
       "read_limit s4 = read_limit s" "trace s4 = trace s3 @ [Call ''set_value'']"
    by (simp_all add: s4 sv)
  have d5: "data s5 = data s4" "fs s5 = (fs s)(filename s \<mapsto> bytes)" "filename s5 = filename s"
       "read_limit s5 = read_limit s"
       "trace s5 = trace s4 @ [Acquire File_mutex, CreateFile_ev, WriteFile_ev, CloseHandle_ev, Release File_mutex]"
    by (simp_all add: s5 d4)
  have d8: "data s' = data s5" "fs s' = fs s5" "filename s' = filename s5" "read_limit s' = read_limit s5"
       "trace s' = trace s5 @ replicate (read_limit s5) (Release Read_semaphore) @ [Release Mutex, Release Write_lock]"
    by (simp_all add: s6 s7 s8)
  show ?thesis
    using dumps res s4(1) by (simp add: d8 d5 d4 d3 sv)
qed

lemma Wait_Free:
  "handles s g = Some (MutexObj Free) \<Longrightarrow>
   WaitForSingleObject g s =
     Returns () (s\<lparr>handles := (handles s)(g \<mapsto> MutexObj (Owned 1)), trace := trace s @ [Acquire g]\<rparr>)"
  by (simp add: WaitForSingleObject_def)

lemma Release_Owned:
  "handles s g = Some (MutexObj (Owned 1)) \<Longrightarrow>
   ReleaseMutex g s =
     Returns () (s\<lparr>handles := (handles s)(g \<mapsto> MutexObj Free), trace := trace s @ [Release g]\<rparr>)"
  by (simp add: ReleaseMutex_def)

lemma drain_exact:
  "handles s g = Some (SemaphoreObj c mx) \<Longrightarrow> n \<le> c \<Longrightarrow>
   repeat n (WaitForSingleObject g) s =
     Returns () (s\<lparr>handles := (handles s)(g \<mapsto> SemaphoreObj (c - n) mx),
                   trace := trace s @ replicate n (Acquire g)\<rparr>)"
proof (induction n arbitrary: s c)
  case 0
  then have "(handles s)(g \<mapsto> SemaphoreObj c mx) = handles s" by (simp add: fun_upd_idem)
  then show ?case by simp
next
  case (Suc n)
  let ?t = "s\<lparr>handles := (handles s)(g \<mapsto> SemaphoreObj (c - 1) mx), trace := trace s @ [Acquire g]\<rparr>"
  from Suc.prems have w: "WaitForSingleObject g s = Returns () ?t"
    by (simp add: WaitForSingleObject_def)
  have "handles ?t g = Some (SemaphoreObj (c - 1) mx)" "n \<le> c - 1"
    using Suc.prems by simp_all
  from Suc.IH [OF this] have ih: "repeat n (WaitForSingleObject g) ?t =
      Returns () (?t\<lparr>handles := (handles ?t)(g \<mapsto> SemaphoreObj (c - 1 - n) mx),
                   trace := trace ?t @ replicate n (Acquire g)\<rparr>)" .
  have "repeat (Suc n) (WaitForSingleObject g) s = repeat n (WaitForSingleObject g) ?t"
    by (simp add: and_then_def w)
  also note ih
  also have "?t\<lparr>handles := (handles ?t)(g \<mapsto> SemaphoreObj (c - 1 - n) mx),
                trace := trace ?t @ replicate n (Acquire g)\<rparr> =
             s\<lparr>handles := (handles s)(g \<mapsto> SemaphoreObj (c - Suc n) mx),
               trace := trace s @ replicate (Suc n) (Acquire g)\<rparr>"
    by simp
  finally show ?case .
qed

lemma refill_exact:
  "handles s g = Some (SemaphoreObj c mx) \<Longrightarrow> c + n \<le> mx \<Longrightarrow>
   repeat n (ReleaseSemaphore g) s =
     Returns () (s\<lparr>handles := (handles s)(g \<mapsto> SemaphoreObj (c + n) mx),
                   trace := trace s @ replicate n (Release g)\<rparr>)"
proof (induction n arbitrary: s c)
  case 0
  then have "(handles s)(g \<mapsto> SemaphoreObj c mx) = handles s" by (simp add: fun_upd_idem)
  then show ?case by simp
next
  case (Suc n)
  let ?t = "s\<lparr>handles := (handles s)(g \<mapsto> SemaphoreObj (c + 1) mx), trace := trace s @ [Release g]\<rparr>"
  from Suc.prems have w: "ReleaseSemaphore g s = Returns () ?t"
    by (simp add: ReleaseSemaphore_def)
  have "handles ?t g = Some (SemaphoreObj (c + 1) mx)" "(c + 1) + n \<le> mx"
    using Suc.prems by simp_all
  from Suc.IH [OF this] have ih: "repeat n (ReleaseSemaphore g) ?t =
      Returns () (?t\<lparr>handles := (handles ?t)(g \<mapsto> SemaphoreObj (c + 1 + n) mx),
                   trace := trace ?t @ replicate n (Release g)\<rparr>)" .
  have "repeat (Suc n) (ReleaseSemaphore g) s = repeat n (ReleaseSemaphore g) ?t"
    by (simp add: and_then_def w)
  also note ih
  also have "?t\<lparr>handles := (handles ?t)(g \<mapsto> SemaphoreObj (c + 1 + n) mx),
                trace := trace ?t @ replicate n (Release g)\<rparr> =
             s\<lparr>handles := (handles s)(g \<mapsto> SemaphoreObj (c + Suc n) mx),
               trace := trace s @ replicate (Suc n) (Release g)\<rparr>"
    by simp
  finally show ?case .
qed

lemma save_handles:
  "g \<noteq> File_mutex \<Longrightarrow> handles (state_of (save env s)) g = handles s g"
  by (simp add: save_def save_finally_def and_then_def try_finally_def WaitForSingleObject_def
        ReleaseMutex_def CreateFile_CREATE_ALWAYS_def WriteFile_def CloseHandle_def
      split: option.splits kobj.splits ownership.splits sum.splits)

lemma load_handles:
  "g \<noteq> File_mutex \<Longrightarrow> handles (state_of (load env s)) g = handles s g"
  by (simp add: load_def and_then_def try_finally_def WaitForSingleObject_def
        ReleaseMutex_def CreateFile_OPEN_EXISTING_def ReadFile_def CloseHandle_def
      split: option.splits kobj.splits ownership.splits sum.splits)

lemma save_read_limit: "read_limit (state_of (save env s)) = read_limit s"
  by (simp add: save_def save_finally_def and_then_def try_finally_def WaitForSingleObject_def
        ReleaseMutex_def CreateFile_CREATE_ALWAYS_def WriteFile_def CloseHandle_def
      split: option.splits kobj.splits ownership.splits sum.splits)

lemma at_save_fields:
  "read_limit (at_save key v s) = read_limit s"
  "filename (at_save key v s) = filename s"
  "fs (at_save key v s) = fs s"
  "data (at_save key v s) = data (snd (set_value s key v))"
  "handles (at_save key v s) Read_semaphore = Some (SemaphoreObj 0 (read_limit s))"
  "handles (at_save key v s) Mutex = Some (MutexObj (Owned 1))"
  "handles (at_save key v s) Write_lock = Some (MutexObj (Owned 1))"
  "handles (at_save key v s) File_mutex = handles s File_mutex"
  by (simp_all add: at_save_def set_value_def)

lemma value_set_quiescent:
  assumes q: "quiescent s"
  shows "value_set env key v s =
     (case save env (at_save key v s) of
        Returns u s5 \<Rightarrow>
          Returns (fst (set_value s key v))
            (s5\<lparr>handles := (handles s5)
                   (Read_semaphore \<mapsto> SemaphoreObj (read_limit s) (read_limit s),
                    Mutex \<mapsto> MutexObj Free,
                    Write_lock \<mapsto> MutexObj Free),
                 trace := trace s5 @ replicate (read_limit s) (Release Read_semaphore)
                   @ [Release Mutex, Release Write_lock]\<rparr>)
      | Raises e s5 \<Rightarrow> Raises e s5
      | Blocks s5 \<Rightarrow> Blocks s5)"
proof -
  let ?n = "read_limit s"
  let ?s1 = "s\<lparr>handles := (handles s)(Write_lock \<mapsto> MutexObj (Owned 1)),
                trace := trace s @ [Acquire Write_lock]\<rparr>"
  let ?s2 = "?s1\<lparr>handles := (handles ?s1)(Mutex \<mapsto> MutexObj (Owned 1)),
                  trace := trace ?s1 @ [Acquire Mutex]\<rparr>"
  let ?s3 = "?s2\<lparr>handles := (handles ?s2)(Read_semaphore \<mapsto> SemaphoreObj (?n - ?n) ?n),
                  trace := trace ?s2 @ replicate ?n (Acquire Read_semaphore)\<rparr>"
  from q have w1: "WaitForSingleObject Write_lock s = Returns () ?s1"
    by (intro Wait_Free) (simp add: quiescent_def)
  from q have w2: "WaitForSingleObject Mutex ?s1 = Returns () ?s2"
    by (intro Wait_Free) (simp add: quiescent_def)
  from q have "repeat ?n (WaitForSingleObject Read_semaphore) ?s2 = Returns () ?s3"
    by (intro drain_exact) (simp_all add: quiescent_def)
  moreover have "read_limit ?s2 = ?n" by simp
  ultimately have w3: "repeat (read_limit ?s2) (WaitForSingleObject Read_semaphore) ?s2 = Returns () ?s3"
    by (simp only:)
  have w4: "call ''set_value'' (\<lambda>s. set_value s key v) ?s3
              = Returns (fst (set_value s key v)) (at_save key v s)"
    by (simp add: call_def at_save_def set_value_def)
  have front: "value_set env key v s =
      and_then (save env) (\<lambda>u.
      and_then (\<lambda>s. repeat (read_limit s) (ReleaseSemaphore Read_semaphore) s) (\<lambda>u.
      and_then (ReleaseMutex Mutex) (\<lambda>u.
      and_then (ReleaseMutex Write_lock) (\<lambda>u.
      Returns (fst (set_value s key v)))))) (at_save key v s)"
    by (simp only: value_set_def and_then_def w1 w2 w3 w4 outcome.case)
  show ?thesis
  proof (cases "save env (at_save key v s)")
    case (Returns u s5)
    then have so: "state_of (save env (at_save key v s)) = s5" by simp
    have n5: "read_limit s5 = ?n"
      using save_read_limit [of env "at_save key v s"] by (simp only: so at_save_fields)
    have h5: "handles s5 Read_semaphore = Some (SemaphoreObj 0 ?n)"
         "handles s5 Mutex = Some (MutexObj (Owned 1))"
         "handles s5 Write_lock = Some (MutexObj (Owned 1))"
      using save_handles [of Read_semaphore env "at_save key v s"]
        save_handles [of Mutex env "at_save key v s"]
        save_handles [of Write_lock env "at_save key v s"]
      by (simp_all add: so at_save_fields)
    let ?s6 = "s5\<lparr>handles := (handles s5)(Read_semaphore \<mapsto> SemaphoreObj (0 + ?n) ?n),
                    trace := trace s5 @ replicate ?n (Release Read_semaphore)\<rparr>"
    let ?s7 = "?s6\<lparr>handles := (handles ?s6)(Mutex \<mapsto> MutexObj Free),
                    trace := trace ?s6 @ [Release Mutex]\<rparr>"
    let ?s8 = "?s7\<lparr>handles := (handles ?s7)(Write_lock \<mapsto> MutexObj Free),
                    trace := trace ?s7 @ [Release Write_lock]\<rparr>"
    have "repeat ?n (ReleaseSemaphore Read_semaphore) s5 = Returns () ?s6"
      by (intro refill_exact) (simp_all add: h5)
    with n5 have w6: "repeat (read_limit s5) (ReleaseSemaphore Read_semaphore) s5 = Returns () ?s6"
      by (simp only:)
    have w7: "ReleaseMutex Mutex ?s6 = Returns () ?s7"
      by (intro Release_Owned) (simp add: h5)
    have w8: "ReleaseMutex Write_lock ?s7 = Returns () ?s8"
      by (intro Release_Owned) (simp add: h5)
    have "value_set env key v s = Returns (fst (set_value s key v)) ?s8"
      by (simp only: front and_then_def Returns w6 w7 w8 outcome.case)
    then show ?thesis by (simp add: Returns)
  next
    case (Raises e s5)
    then show ?thesis by (simp add: front and_then_def)
  next
    case (Blocks s5)
    then show ?thesis by (simp add: front and_then_def)
  qed
qed

lemma load_Returns:
  assumes "load env s = Returns u s'"
  shows "\<exists>h. (case fs s (filename s) of
            None \<Rightarrow>
              s' = s\<lparr>data := Map.empty, handles := (handles s)(File_mutex := h),
                     trace := trace s @ [Acquire File_mutex, Release File_mutex]\<rparr>
          | Some bytes \<Rightarrow>
              \<exists>d. pickle_loads env bytes = Inr d \<and>
                s' = s\<lparr>data := d, handles := (handles s)(File_mutex := h),
                       trace := trace s @ [Acquire File_mutex, CreateFile_ev, ReadFile_ev,
                                           CloseHandle_ev, Release File_mutex]\<rparr>)"
proof -
  from assms obtain u1 s1 where
      w1: "WaitForSingleObject File_mutex s = Returns u1 s1" and
      r1: "try_finally
         (\<lambda>s. if fs s (filename s) \<noteq> None
               then and_then (CreateFile_OPEN_EXISTING env) (\<lambda>h.
                    and_then (\<lambda>t. ReadFile env h (getsize t) t) (\<lambda>bytes t.
                      case pickle_loads env bytes of
                        Inl e \<Rightarrow> Raises e t
                      | Inr d \<Rightarrow> CloseHandle env (Some h) (t\<lparr>data := d\<rparr>))) s
               else Returns () (s\<lparr>data := Map.empty\<rparr>))
         (ReleaseMutex File_mutex) s1 = Returns u s'"
    unfolding load_def by (blast dest: and_then_Returns)
  from Wait_Returns [OF w1] obtain h1 where
    s1: "s1 = s\<lparr>handles := (handles s)(File_mutex := h1), trace := trace s @ [Acquire File_mutex]\<rparr>"
    by blast
  show ?thesis
  proof (cases "fs s (filename s)")
    case None
    with r1 s1 obtain u2 where
      "ReleaseMutex File_mutex (s1\<lparr>data := Map.empty\<rparr>) = Returns u2 s'"
      by (auto simp: try_finally_def split: outcome.splits)
    from ReleaseMutex_Returns [OF this] obtain h where
      "s' = s\<lparr>data := Map.empty, handles := (handles s)(File_mutex := h),
                     trace := trace s @ [Acquire File_mutex, Release File_mutex]\<rparr>"
      by (auto simp: s1)
    with None show ?thesis by auto
  next
    case (Some bytes)
    with r1 s1 obtain u2 d where
      d: "pickle_loads env bytes = Inr d" and
      "ReleaseMutex File_mutex
         (s1\<lparr>data := d, trace := trace s1 @ [CreateFile_ev, ReadFile_ev, CloseHandle_ev]\<rparr>) = Returns u2 s'"
      by (auto simp: try_finally_def and_then_def CreateFile_OPEN_EXISTING_def ReadFile_def
            getsize_def CloseHandle_def
          split: outcome.splits option.splits sum.splits)
    from ReleaseMutex_Returns [OF this(2)] obtain h where
      "s' = s\<lparr>data := d, handles := (handles s)(File_mutex := h),
                       trace := trace s @ [Acquire File_mutex, CreateFile_ev, ReadFile_ev,
                                           CloseHandle_ev, Release File_mutex]\<rparr>"
      by (auto simp: s1)
    with Some d show ?thesis by auto
  qed
qed

lemma load_absent:
  assumes "handles s File_mutex = Some (MutexObj Free)" "fs s (filename s) = None"
  shows "load env s =
     Returns () (s\<lparr>data := Map.empty, trace := trace s @ [Acquire File_mutex, Release File_mutex]\<rparr>)"
proof -
  have "(handles s)(File_mutex \<mapsto> MutexObj Free) = handles s"
    using assms by (simp add: fun_upd_idem)
  with assms show ?thesis
    by (simp add: load_def and_then_def try_finally_def WaitForSingleObject_def ReleaseMutex_def)
qed

lemma load_present:
  assumes "handles s File_mutex = Some (MutexObj Free)" "fs s (filename s) = Some bytes"
    "open_existing_error env = None" "read_error env = None" "pickle_loads env bytes = Inr d"
  shows "load env s =
     Returns () (s\<lparr>data := d,
                   trace := trace s @ [Acquire File_mutex, CreateFile_ev, ReadFile_ev, CloseHandle_ev,
                                       Release File_mutex]\<rparr>)"
proof -
  have "(handles s)(File_mutex \<mapsto> MutexObj Free) = handles s"
    using assms by (simp add: fun_upd_idem)
  with assms show ?thesis
    by (simp add: load_def and_then_def try_finally_def WaitForSingleObject_def ReleaseMutex_def
          CreateFile_OPEN_EXISTING_def ReadFile_def getsize_def CloseHandle_def)
qed

lemma save_ok:
  assumes "handles s File_mutex = Some (MutexObj Free)"
    "create_always_error env = None" "write_error env = None" "pickle_dumps env (data s) = Inr bytes"
  shows "save env s =
     Returns () (s\<lparr>fs := (fs s)(filename s \<mapsto> bytes),
                   trace := trace s @ [Acquire File_mutex, CreateFile_ev, WriteFile_ev, CloseHandle_ev,
                                       Release File_mutex]\<rparr>)"
proof -
  have "(handles s)(File_mutex \<mapsto> MutexObj Free) = handles s"
    using assms by (simp add: fun_upd_idem)
  with assms show ?thesis
    by (simp add: save_def save_finally_def and_then_def try_finally_def WaitForSingleObject_def
          ReleaseMutex_def CreateFile_CREATE_ALWAYS_def WriteFile_def CloseHandle_def)
qed

lemma load_read_limit: "read_limit (state_of (load env s)) = read_limit s"
  by (simp add: load_def and_then_def try_finally_def WaitForSingleObject_def
        ReleaseMutex_def CreateFile_OPEN_EXISTING_def ReadFile_def CloseHandle_def
      split: option.splits kobj.splits ownership.splits sum.splits)

lemma value_get_Returns:
  assumes run: "value_get env key s = Returns r s'"
  shows "r = get_value s' key \<and> fs s' = fs s \<and> filename s' = filename s \<and>
         (case fs s (filename s) of
            None \<Rightarrow>
              data s' = Map.empty \<and>
              trace s' = trace s @ [Acquire Read_semaphore, Acquire File_mutex, Release File_mutex,
                                    Call ''get_value'', Release Read_semaphore]
          | Some bytes \<Rightarrow>
              pickle_loads env bytes = Inr (data s') \<and>
              trace s' = trace s @ [Acquire Read_semaphore, Acquire File_mutex, CreateFile_ev,
                                    ReadFile_ev, CloseHandle_ev, Release File_mutex,
                                    Call ''get_value'', Release Read_semaphore])"
proof -
  from run obtain u1 s1 where
      w1: "WaitForSingleObject Read_semaphore s = Returns u1 s1" and
      r1: "and_then (load env) (\<lambda>u.
           and_then (call ''get_value'' (\<lambda>s. (get_value s key, s))) (\<lambda>data.
           and_then (ReleaseSemaphore Read_semaphore) (\<lambda>u.
           Returns data))) s1 = Returns r s'"
    unfolding value_get_def by (blast dest: and_then_Returns)
  from r1 obtain u2 s2 where
      w2: "load env s1 = Returns u2 s2" and
      r2: "and_then (call ''get_value'' (\<lambda>s. (get_value s key, s))) (\<lambda>data.
           and_then (ReleaseSemaphore Read_semaphore) (\<lambda>u.
           Returns data)) s2 = Returns r s'"
    by (blast dest: and_then_Returns)
  from r2 obtain res s3 where
      w3: "call ''get_value'' (\<lambda>s. (get_value s key, s)) s2 = Returns res s3" and
      r3: "and_then (ReleaseSemaphore Read_semaphore) (\<lambda>u. Returns res) s3 = Returns r s'"
    by (blast dest: and_then_Returns)
  from r3 obtain u4 where
      w4: "ReleaseSemaphore Read_semaphore s3 = Returns u4 s'" and res: "res = r"
    by (auto dest: and_then_Returns)
  from Wait_Returns [OF w1] obtain h1 where
    s1: "s1 = s\<lparr>handles := (handles s)(Read_semaphore := h1),
                 trace := trace s @ [Acquire Read_semaphore]\<rparr>"
    by blast
  from call_Returns [OF w3] have
    s3: "res = get_value s2 key" "s3 = s2\<lparr>trace := trace s2 @ [Call ''get_value'']\<rparr>"
    by simp_all
  from ReleaseSemaphore_Returns [OF w4] obtain h4 where
    s4: "s' = s3\<lparr>handles := (handles s3)(Read_semaphore := h4),
                  trace := trace s3 @ [Release Read_semaphore]\<rparr>"
    by blast
  have g: "get_value s' key = get_value s2 key"
    by (simp add: get_value_def s4 s3)
  from load_Returns [OF w2] obtain h2 where
    l: "case fs s1 (filename s1) of
            None \<Rightarrow>
              s2 = s1\<lparr>data := Map.empty, handles := (handles s1)(File_mutex := h2),
                     trace := trace s1 @ [Acquire File_mutex, Release File_mutex]\<rparr>
          | Some bytes \<Rightarrow>
              \<exists>d. pickle_loads env bytes = Inr d \<and>
                s2 = s1\<lparr>data := d, handles := (handles s1)(File_mutex := h2),
                       trace := trace s1 @ [Acquire File_mutex, CreateFile_ev, ReadFile_ev,
                                           CloseHandle_ev, Release File_mutex]\<rparr>"
    by blast
  show ?thesis
  proof (cases "fs s (filename s)")
    case None
    with l have "s2 = s1\<lparr>data := Map.empty, handles := (handles s1)(File_mutex := h2),
                     trace := trace s1 @ [Acquire File_mutex, Release File_mutex]\<rparr>"
      by (simp add: s1)
    with None show ?thesis
      using res s3(1) g by (simp add: s4 s3 s1)
  next
    case (Some bytes)
    with l obtain d where "pickle_loads env bytes = Inr d"
      "s2 = s1\<lparr>data := d, handles := (handles s1)(File_mutex := h2),
                       trace := trace s1 @ [Acquire File_mutex, CreateFile_ev, ReadFile_ev,
                                           CloseHandle_ev, Release File_mutex]\<rparr>"
      by (auto simp: s1)
    with Some show ?thesis
      using res s3(1) g by (simp add: s4 s3 s1)
  qed
qed

lemma at_load_fields:
  "read_limit (at_load s) = read_limit s"
  "filename (at_load s) = filename s"
  "fs (at_load s) = fs s"
  "handles (at_load s) Read_semaphore = Some (SemaphoreObj (read_limit s - 1) (read_limit s))"
  "handles (at_load s) File_mutex = handles s File_mutex"
  by (simp_all add: at_load_def)

lemma value_get_quiescent:
  assumes q: "quiescent s" and pos: "0 < read_limit s"
  shows "value_get env key s =
     (case load env (at_load s) of
        Returns u t \<Rightarrow>
          Returns (get_value t key)
            (t\<lparr>handles := (handles t)(Read_semaphore \<mapsto> SemaphoreObj (read_limit s) (read_limit s)),
               trace := trace t @ [Call ''get_value'', Release Read_semaphore]\<rparr>)
      | Raises e t \<Rightarrow> Raises e t
      | Blocks t \<Rightarrow> Blocks t)"
proof -
  from q pos have w1: "WaitForSingleObject Read_semaphore s = Returns () (at_load s)"
    by (simp add: WaitForSingleObject_def quiescent_def at_load_def)
  have front: "value_get env key s =
      and_then (load env) (\<lambda>u.
      and_then (call ''get_value'' (\<lambda>s. (get_value s key, s))) (\<lambda>data.
      and_then (ReleaseSemaphore Read_semaphore) (\<lambda>u.
      Returns data))) (at_load s)"
    by (simp only: value_get_def and_then_def w1 outcome.case)
  show ?thesis
  proof (cases "load env (at_load s)")
    case (Returns u t)
    then have so: "state_of (load env (at_load s)) = t" by simp
    have h: "handles t Read_semaphore = Some (SemaphoreObj (read_limit s - 1) (read_limit s))"
      using load_handles [of Read_semaphore env "at_load s"] by (simp add: so at_load_fields)
    let ?t1 = "t\<lparr>trace := trace t @ [Call ''get_value'']\<rparr>"
    let ?t2 = "?t1\<lparr>handles := (handles ?t1)(Read_semaphore \<mapsto> SemaphoreObj (read_limit s - 1 + 1) (read_limit s)),
                    trace := trace ?t1 @ [Release Read_semaphore]\<rparr>"
    have w3: "call ''get_value'' (\<lambda>s. (get_value s key, s)) t = Returns (get_value t key) ?t1"
      by (simp add: call_def)
    from pos have w4: "ReleaseSemaphore Read_semaphore ?t1 = Returns () ?t2"
      by (simp add: ReleaseSemaphore_def h)
    have "value_get env key s = Returns (get_value t key) ?t2"
      by (simp only: front and_then_def Returns w3 w4 outcome.case)
    with pos show ?thesis by (simp add: Returns)
  next
    case (Raises e t)
    then show ?thesis by (simp add: front and_then_def)
  next
    case (Blocks t)
    then show ?thesis by (simp add: front and_then_def)
  qed
qed

lemmas calls = and_then_def try_finally_def WaitForSingleObject_def ReleaseMutex_def
  ReleaseSemaphore_def CreateFile_CREATE_ALWAYS_def CreateFile_OPEN_EXISTING_def WriteFile_def
  ReadFile_def getsize_def CloseHandle_def save_finally_def save_def load_def call_def
  CreateMutex_def CreateSemaphore_def

lemma db0_eq:
  "db0 = \<lparr>data = Map.empty, filename = ''test.pkl'',
           handles = [File_mutex \<mapsto> MutexObj Free, Mutex \<mapsto> MutexObj Free,
                      Read_semaphore \<mapsto> SemaphoreObj 10 10, Write_lock \<mapsto> MutexObj Free],
           fs = Map.empty, trace = [Acquire File_mutex, Release File_mutex], read_limit = 10\<rparr>"
  by (simp add: db0_def SynchronizedDataBase_new_def SynchronizedDataBase_init_def
        SerializedDataBase_init_def new_object_def calls ok_env_def Let_def)

lemma db0_fields:
  "quiescent db0" "read_limit db0 = 10" "filename db0 = ''test.pkl''" "fs db0 = Map.empty"
  "data db0 = Map.empty" "trace db0 = [Acquire File_mutex, Release File_mutex]"
  by (simp_all add: db0_eq quiescent_def)

lemma ok_env_fields:
  "pickle_dumps ok_env d = Inr [d]" "pickle_loads ok_env [d] = Inr d"
  "pickle_loads ok_env [] = Inl EOFError"
  "create_always_error ok_env = None" "open_existing_error ok_env = None"
  "write_error ok_env = None" "read_error ok_env = None" "close_none_error ok_env = Some TypeError"
  "named_objects ok_env = Map.empty"
  by (simp_all add: ok_env_def)

lemma quiescentD:
  "quiescent s \<Longrightarrow> handles s File_mutex = Some (MutexObj Free)"
  "quiescent s \<Longrightarrow> handles s Mutex = Some (MutexObj Free)"
  "quiescent s \<Longrightarrow> handles s Write_lock = Some (MutexObj Free)"
  "quiescent s \<Longrightarrow> handles s Read_semaphore = Some (SemaphoreObj (read_limit s) (read_limit s))"
  by (simp_all add: quiescent_def)

lemma value_set_total:
  assumes q: "quiescent s" and io: "create_always_error env = None" "write_error env = None"
    and enc: "pickle_dumps env (data (snd (set_value s key v))) = Inr bytes"
  shows "\<exists>s'. value_set env key v s = Returns (fst (set_value s key v)) s' \<and> quiescent s'"
proof -
  let ?t = "at_save key v s"
  let ?s5 = "?t\<lparr>fs := (fs ?t)(filename ?t \<mapsto> bytes),
                 trace := trace ?t @ [Acquire File_mutex, CreateFile_ev, WriteFile_ev, CloseHandle_ev,
                                      Release File_mutex]\<rparr>"
  have "save env ?t = Returns () ?s5"
    using q io enc by (intro save_ok) (simp_all add: at_save_fields quiescentD)
  then have "value_set env key v s = Returns (fst (set_value s key v))
            (?s5\<lparr>handles := (handles ?s5)
                   (Read_semaphore \<mapsto> SemaphoreObj (read_limit s) (read_limit s),
                    Mutex \<mapsto> MutexObj Free,
                    Write_lock \<mapsto> MutexObj Free),
                 trace := trace ?s5 @ replicate (read_limit s) (Release Read_semaphore)
                   @ [Release Mutex, Release Write_lock]\<rparr>)"
    by (simp only: value_set_quiescent [OF q] outcome.case)
  moreover have "quiescent (?s5\<lparr>handles := (handles ?s5)
                   (Read_semaphore \<mapsto> SemaphoreObj (read_limit s) (read_limit s),
                    Mutex \<mapsto> MutexObj Free,
                    Write_lock \<mapsto> MutexObj Free),
                 trace := trace ?s5 @ replicate (read_limit s) (Release Read_semaphore)
                   @ [Release Mutex, Release Write_lock]\<rparr>)"
    using q by (simp add: quiescent_def at_save_fields)
  ultimately show ?thesis by blast
qed

lemma value_set_db0:
  "\<exists>s'. value_set ok_env 0 (Val 1) db0 = Returns True s' \<and> quiescent s'"
  using value_set_total [of db0 ok_env 0 "Val 1" "[[0 \<mapsto> Val 1]]"]
  by (simp add: db0_fields ok_env_fields set_value_def)

lemma db1_fields:
  "quiescent db1" "data db1 = [0 \<mapsto> Val 1]" "fs db1 = [''test.pkl'' \<mapsto> [[0 \<mapsto> Val 1]]]"
  "read_limit db1 = 10" "filename db1 = ''test.pkl''"
proof -
  from value_set_db0 obtain s' where
    run: "value_set ok_env 0 (Val 1) db0 = Returns True s'" and q: "quiescent s'"
    by blast
  then have eq: "db1 = s'" by (simp add: db1_def)
  from q show "quiescent db1" by (simp add: eq)
  from value_set_Returns [OF run]
  show "data db1 = [0 \<mapsto> Val 1]" "fs db1 = [''test.pkl'' \<mapsto> [[0 \<mapsto> Val 1]]]"
    "read_limit db1 = 10" "filename db1 = ''test.pkl''"
    by (simp_all add: eq db0_fields set_value_def ok_env_fields)
qed

section \<open>The write protocol\<close>

text \<open>
  C6. A call of \<open>value_set\<close> that returns has made exactly these calls, in this order: it
  takes the write gate (the write lock, then the mutex), takes the \<open>read_limit\<close> slots of the
  read semaphore, runs the inherited \<open>set_value\<close>, saves the resulting dictionary to the
  snapshot file, releases the \<open>read_limit\<close> slots, and releases the write gate (the mutex, then
  the write lock). It returns what \<open>set_value\<close> returned, and the file holds the encoding
  of the dictionary after \<open>set_value\<close>. From a quiescent state, with no failing file call and a
  dictionary that can be encoded, the call does return, and leaves a quiescent state.
\<close>

theorem value_set_protocol:
  "(value_set env key v s = Returns r s' \<longrightarrow>
      r = fst (set_value s key v) \<and>
      data s' = data (snd (set_value s key v)) \<and>
      (\<exists>bytes. pickle_dumps env (data (snd (set_value s key v))) = Inr bytes \<and>
         fs s' = (fs s)(filename s \<mapsto> bytes)) \<and>
      trace s' = trace s @ [Acquire Write_lock, Acquire Mutex]
        @ replicate (read_limit s) (Acquire Read_semaphore)
        @ [Call ''set_value'',
           Acquire File_mutex, CreateFile_ev, WriteFile_ev, CloseHandle_ev, Release File_mutex]
        @ replicate (read_limit s) (Release Read_semaphore)
        @ [Release Mutex, Release Write_lock]) \<and>
   (quiescent s \<and> create_always_error env = None \<and> write_error env = None \<and>
    pickle_dumps env (data (snd (set_value s key v))) = Inr encoded \<longrightarrow>
      (\<exists>t. value_set env key v s = Returns (fst (set_value s key v)) t \<and> quiescent t))"
proof (intro conjI impI)
  assume run: "value_set env key v s = Returns r s'"
  note d = value_set_Returns [OF run]
  from d show "r = fst (set_value s key v)" by simp
  from d show "data s' = data (snd (set_value s key v))" by simp
  from d show "\<exists>bytes. pickle_dumps env (data (snd (set_value s key v))) = Inr bytes \<and>
         fs s' = (fs s)(filename s \<mapsto> bytes)" by auto
  from d show "trace s' = trace s @ [Acquire Write_lock, Acquire Mutex]
        @ replicate (read_limit s) (Acquire Read_semaphore)
        @ [Call ''set_value'',
           Acquire File_mutex, CreateFile_ev, WriteFile_ev, CloseHandle_ev, Release File_mutex]
        @ replicate (read_limit s) (Release Read_semaphore)
        @ [Release Mutex, Release Write_lock]" by simp
next
  assume "quiescent s \<and> create_always_error env = None \<and> write_error env = None \<and>
    pickle_dumps env (data (snd (set_value s key v))) = Inr encoded"
  then show "\<exists>t. value_set env key v s = Returns (fst (set_value s key v)) t \<and> quiescent t"
    by (intro value_set_total) simp_all
qed

text \<open>The first write of a new store on a missing file.\<close>

theorem value_set_protocol_witness:
  "\<exists>s'. value_set ok_env 0 (Val 1) db0 = Returns True s' \<and>
     data s' = [0 \<mapsto> Val 1] \<and>
     fs s' = [''test.pkl'' \<mapsto> [[0 \<mapsto> Val 1]]] \<and>
     trace s' = trace db0 @
       [Acquire Write_lock, Acquire Mutex,
        Acquire Read_semaphore, Acquire Read_semaphore, Acquire Read_semaphore,
        Acquire Read_semaphore, Acquire Read_semaphore, Acquire Read_semaphore,
        Acquire Read_semaphore, Acquire Read_semaphore, Acquire Read_semaphore,
        Acquire Read_semaphore,
        Call ''set_value'',
        Acquire File_mutex, CreateFile_ev, WriteFile_ev, CloseHandle_ev, Release File_mutex,
        Release Read_semaphore, Release Read_semaphore, Release Read_semaphore,
        Release Read_semaphore, Release Read_semaphore, Release Read_semaphore,
        Release Read_semaphore, Release Read_semaphore, Release Read_semaphore,
        Release Read_semaphore,
        Release Mutex, Release Write_lock]"
proof -
  have pre: "quiescent db0 \<and> create_always_error ok_env = None \<and> write_error ok_env = None \<and>
     pickle_dumps ok_env (data (snd (set_value db0 0 (Val 1)))) = Inr [[0 \<mapsto> Val 1]]"
    by (simp add: db0_fields ok_env_fields set_value_def)
  from value_set_protocol [of ok_env 0 "Val 1" db0 _ _ "[[0 \<mapsto> Val 1]]"] pre
  obtain t where run: "value_set ok_env 0 (Val 1) db0 = Returns True t"
    by (auto simp: db0_fields set_value_def)
  from value_set_protocol [of ok_env 0 "Val 1" db0 True t] run
  show ?thesis
    by (simp add: db0_fields set_value_def ok_env_fields eval_nat_numeral)
qed

lemma load_keeps_handles:
  "handles s File_mutex = Some (MutexObj Free) \<Longrightarrow> handles (state_of (load env s)) = handles s"
  by (auto simp: load_def and_then_def try_finally_def WaitForSingleObject_def
        ReleaseMutex_def CreateFile_OPEN_EXISTING_def ReadFile_def CloseHandle_def fun_upd_idem
      split: option.splits sum.splits)

lemma load_never_raises_when_absent:
  "fs s (filename s) = None \<Longrightarrow> handles s File_mutex = Some (MutexObj m) \<Longrightarrow>
   raised (load env s) = None"
  by (cases m) (simp_all add: load_def and_then_def try_finally_def WaitForSingleObject_def
        ReleaseMutex_def)

section \<open>Persistence\<close>

text \<open>
  C5. When the snapshot file does not exist, \<open>load\<close> does not raise, and with the file mutex
  free it returns with the empty dictionary in memory. When the file exists and can be read
  and decoded, \<open>load\<close> returns with the decoded dictionary in memory. Whenever \<open>load\<close>
  returns, the dictionary in memory is determined by the file alone: what was in memory
  before is discarded, never merged.
\<close>

theorem load_absent_or_replace:
  "(fs s (filename s) = None \<and> handles s File_mutex = Some (MutexObj m) \<longrightarrow>
      raised (load env s) = None) \<and>
   (fs s (filename s) = None \<and> handles s File_mutex = Some (MutexObj Free) \<longrightarrow>
      (\<exists>t. load env s = Returns () t \<and> data t = Map.empty \<and> fs t = fs s \<and> handles t = handles s)) \<and>
   (fs s (filename s) = Some bytes \<and> handles s File_mutex = Some (MutexObj Free) \<and>
    open_existing_error env = None \<and> read_error env = None \<and> pickle_loads env bytes = Inr d \<longrightarrow>
      (\<exists>t. load env s = Returns () t \<and> data t = d \<and> fs t = fs s \<and> handles t = handles s)) \<and>
   (load env s = Returns u s' \<longrightarrow>
      (case fs s (filename s) of
         None \<Rightarrow> data s' = Map.empty
       | Some content \<Rightarrow> pickle_loads env content = Inr (data s')))"
proof (intro conjI impI)
  assume "fs s (filename s) = None \<and> handles s File_mutex = Some (MutexObj m)"
  then show "raised (load env s) = None"
    by (intro load_never_raises_when_absent [of s m]) simp_all
next
  assume a: "fs s (filename s) = None \<and> handles s File_mutex = Some (MutexObj Free)"
  then have "load env s =
     Returns () (s\<lparr>data := Map.empty, trace := trace s @ [Acquire File_mutex, Release File_mutex]\<rparr>)"
    by (intro load_absent) simp_all
  then show "\<exists>t. load env s = Returns () t \<and> data t = Map.empty \<and> fs t = fs s \<and> handles t = handles s"
    by simp
next
  assume a: "fs s (filename s) = Some bytes \<and> handles s File_mutex = Some (MutexObj Free) \<and>
    open_existing_error env = None \<and> read_error env = None \<and> pickle_loads env bytes = Inr d"
  then have "load env s =
     Returns () (s\<lparr>data := d,
                   trace := trace s @ [Acquire File_mutex, CreateFile_ev, ReadFile_ev, CloseHandle_ev,
                                       Release File_mutex]\<rparr>)"
    by (intro load_present [of s bytes]) simp_all
  then show "\<exists>t. load env s = Returns () t \<and> data t = d \<and> fs t = fs s \<and> handles t = handles s"
    by simp
next
  assume "load env s = Returns u s'"
  from load_Returns [OF this]
  show "case fs s (filename s) of
         None \<Rightarrow> data s' = Map.empty
       | Some content \<Rightarrow> pickle_loads env content = Inr (data s')"
    by (auto split: option.splits)
qed

text \<open>
  Loading into an object that holds key 0: from its own snapshot, from a missing file, and
  from a snapshot that holds key 5 only.
\<close>

theorem load_absent_or_replace_witness:
  "(\<exists>t. load ok_env db1 = Returns () t \<and> data t = [0 \<mapsto> Val 1]) \<and>
   (\<exists>t. load ok_env (db1\<lparr>fs := Map.empty\<rparr>) = Returns () t \<and> data t = Map.empty) \<and>
   (\<exists>t. load ok_env (db1\<lparr>fs := [''test.pkl'' \<mapsto> [[5 \<mapsto> Val 7]]]\<rparr>) = Returns () t \<and>
        data t = [5 \<mapsto> Val 7] \<and> data t 0 = None)"
proof -
  note absent = load_absent_or_replace [THEN conjunct2, THEN conjunct1, rule_format]
  note present = load_absent_or_replace [THEN conjunct2, THEN conjunct2, THEN conjunct1, rule_format]
  have f: "handles db1 File_mutex = Some (MutexObj Free)"
    using db1_fields(1) by (simp add: quiescent_def)
  have "\<exists>t. load ok_env db1 = Returns () t \<and> data t = [0 \<mapsto> Val 1] \<and> fs t = fs db1 \<and>
          handles t = handles db1"
    by (rule present [of db1 "[[0 \<mapsto> Val 1]]"]) (simp add: db1_fields f ok_env_fields)
  then have 1: "\<exists>t. load ok_env db1 = Returns () t \<and> data t = [0 \<mapsto> Val 1]"
    by blast
  let ?gone = "db1\<lparr>fs := Map.empty\<rparr>"
  have "\<exists>t. load ok_env ?gone = Returns () t \<and> data t = Map.empty \<and> fs t = fs ?gone \<and>
          handles t = handles ?gone"
    by (rule absent) (simp add: f)
  then have 2: "\<exists>t. load ok_env ?gone = Returns () t \<and> data t = Map.empty"
    by blast
  let ?other = "db1\<lparr>fs := [''test.pkl'' \<mapsto> [[5 \<mapsto> Val 7]]]\<rparr>"
  have "\<exists>t. load ok_env ?other = Returns () t \<and> data t = [5 \<mapsto> Val 7] \<and> fs t = fs ?other \<and>
          handles t = handles ?other"
    by (rule present [of ?other "[[5 \<mapsto> Val 7]]"]) (simp add: db1_fields f ok_env_fields)
  then obtain t where "load ok_env ?other = Returns () t" "data t = [5 \<mapsto> Val 7]"
    by blast
  then have 3: "\<exists>t. load ok_env ?other = Returns () t \<and> data t = [5 \<mapsto> Val 7] \<and> data t 0 = None"
    by simp
  from 1 2 3 show ?thesis by blast
qed

text \<open>
  C4. For every dictionary that the encoding encodes and decodes back, \<open>save\<close> followed by
  \<open>load\<close> restores it, whatever is in memory when \<open>load\<close> runs (no file call failing, the file
  mutex free).
\<close>

theorem save_load_roundtrip:
  "handles s File_mutex = Some (MutexObj Free) \<and> io_ok env \<and>
   pickle_dumps env (data s) = Inr bytes \<and> pickle_loads env bytes = Inr (data s) \<longrightarrow>
     (\<exists>s1. save env s = Returns () s1 \<and> fs s1 (filename s) = Some bytes \<and> data s1 = data s \<and>
        (\<forall>d. \<exists>s2. load env (s1\<lparr>data := d\<rparr>) = Returns () s2 \<and> data s2 = data s))"
proof
  assume a: "handles s File_mutex = Some (MutexObj Free) \<and> io_ok env \<and>
   pickle_dumps env (data s) = Inr bytes \<and> pickle_loads env bytes = Inr (data s)"
  let ?s1 = "s\<lparr>fs := (fs s)(filename s \<mapsto> bytes),
                trace := trace s @ [Acquire File_mutex, CreateFile_ev, WriteFile_ev, CloseHandle_ev,
                                    Release File_mutex]\<rparr>"
  from a have sv: "save env s = Returns () ?s1"
    by (intro save_ok) (simp_all add: io_ok_def)
  have "\<exists>s2. load env (?s1\<lparr>data := d\<rparr>) = Returns () s2 \<and> data s2 = data s" for d
  proof -
    from a have "load env (?s1\<lparr>data := d\<rparr>) =
      Returns () (?s1\<lparr>data := d\<rparr>\<lparr>data := data s,
                   trace := trace (?s1\<lparr>data := d\<rparr>) @ [Acquire File_mutex, CreateFile_ev, ReadFile_ev,
                     CloseHandle_ev, Release File_mutex]\<rparr>)"
      by (intro load_present [of _ bytes]) (simp_all add: io_ok_def)
    then show ?thesis by simp
  qed
  with sv show "\<exists>s1. save env s = Returns () s1 \<and> fs s1 (filename s) = Some bytes \<and> data s1 = data s \<and>
        (\<forall>d. \<exists>s2. load env (s1\<lparr>data := d\<rparr>) = Returns () s2 \<and> data s2 = data s)"
    by simp
qed

text \<open>The empty dictionary, and a dictionary with nested lists, \<open>None\<close> and an empty list.\<close>

theorem save_load_roundtrip_witness:
  "(\<exists>s1. save ok_env
            \<lparr>data = (Map.empty :: nat \<rightharpoonup> int list list pyval), filename = ''test.pkl'',
             handles = [File_mutex \<mapsto> MutexObj Free], fs = Map.empty, trace = []\<rparr>
          = Returns () s1 \<and>
        (\<exists>s2. load ok_env (s1\<lparr>data := [7 \<mapsto> PyNone]\<rparr>) = Returns () s2 \<and> data s2 = Map.empty)) \<and>
   (\<exists>s1. save ok_env
            \<lparr>data = [1 \<mapsto> Val [[1, 2], [3]], 2 \<mapsto> PyNone, 3 \<mapsto> Val []], filename = ''test.pkl'',
             handles = [File_mutex \<mapsto> MutexObj Free], fs = [''test.pkl'' \<mapsto> [Map.empty]],
             trace = []\<rparr>
          = Returns () s1 \<and>
        (\<exists>s2. load ok_env (s1\<lparr>data := Map.empty\<rparr>) = Returns () s2 \<and>
           data s2 = [(1::nat) \<mapsto> Val [[1, 2], [3::int]], 2 \<mapsto> PyNone, 3 \<mapsto> Val []]))"
proof -
  note rt = save_load_roundtrip [rule_format]
  let ?a = "\<lparr>data = (Map.empty :: nat \<rightharpoonup> int list list pyval), filename = ''test.pkl'',
             handles = [File_mutex \<mapsto> MutexObj Free], fs = Map.empty, trace = []\<rparr>"
  let ?m = "[(1::nat) \<mapsto> Val [[1, 2], [3::int]], 2 \<mapsto> PyNone, 3 \<mapsto> Val []]"
  let ?b = "\<lparr>data = ?m, filename = ''test.pkl'',
             handles = [File_mutex \<mapsto> MutexObj Free], fs = [''test.pkl'' \<mapsto> [Map.empty]],
             trace = []\<rparr>"
  have "\<exists>s1. save ok_env ?a = Returns () s1 \<and> fs s1 (filename ?a) = Some [Map.empty] \<and>
          data s1 = data ?a \<and>
          (\<forall>d. \<exists>s2. load ok_env (s1\<lparr>data := d\<rparr>) = Returns () s2 \<and> data s2 = data ?a)"
    using rt [of ?a ok_env "[Map.empty]"] by (simp add: ok_env_fields io_ok_def)
  then have 1: "\<exists>s1. save ok_env ?a = Returns () s1 \<and>
        (\<exists>s2. load ok_env (s1\<lparr>data := [7 \<mapsto> PyNone]\<rparr>) = Returns () s2 \<and> data s2 = Map.empty)"
    by fastforce
  have "\<exists>s1. save ok_env ?b = Returns () s1 \<and> fs s1 (filename ?b) = Some [?m] \<and>
          data s1 = data ?b \<and>
          (\<forall>d. \<exists>s2. load ok_env (s1\<lparr>data := d\<rparr>) = Returns () s2 \<and> data s2 = data ?b)"
    using rt [of ?b ok_env "[?m]"] by (simp add: ok_env_fields io_ok_def)
  then have 2: "\<exists>s1. save ok_env ?b = Returns () s1 \<and>
        (\<exists>s2. load ok_env (s1\<lparr>data := Map.empty\<rparr>) = Returns () s2 \<and> data s2 = ?m)"
    by fastforce
  from 1 2 show ?thesis by blast
qed

text \<open>
  C9. When the key is present, a call of \<open>value_set\<close> that returns has returned \<open>False\<close>,
  has left the dictionary as it was, and has nevertheless saved: the file is created or
  truncated and written with the encoding of the unchanged dictionary. From a quiescent
  state, with no failing file call, the call does return.
\<close>

theorem value_set_saves_when_key_present:
  "data s key \<noteq> None \<longrightarrow>
     (value_set env key v s = Returns r s' \<longrightarrow>
        r = False \<and> data s' = data s \<and>
        (\<exists>bytes. pickle_dumps env (data s) = Inr bytes \<and> fs s' = (fs s)(filename s \<mapsto> bytes)) \<and>
        trace s' = trace s @ [Acquire Write_lock, Acquire Mutex]
          @ replicate (read_limit s) (Acquire Read_semaphore)
          @ [Call ''set_value'',
             Acquire File_mutex, CreateFile_ev, WriteFile_ev, CloseHandle_ev, Release File_mutex]
          @ replicate (read_limit s) (Release Read_semaphore)
          @ [Release Mutex, Release Write_lock]) \<and>
     (quiescent s \<and> create_always_error env = None \<and> write_error env = None \<and>
      pickle_dumps env (data s) = Inr encoded \<longrightarrow>
        (\<exists>t. value_set env key v s = Returns False t \<and> data t = data s \<and>
           fs t = (fs s)(filename s \<mapsto> encoded)))"
proof (intro impI conjI)
  assume present: "data s key \<noteq> None"
  then have sv: "set_value s key v = (False, s)" by (simp add: set_value_def)
  {
    assume run: "value_set env key v s = Returns r s'"
    note d = value_set_Returns [OF run]
    from d sv show "r = False" by simp
    from d sv show "data s' = data s" by simp
    from d sv show "\<exists>bytes. pickle_dumps env (data s) = Inr bytes \<and> fs s' = (fs s)(filename s \<mapsto> bytes)"
      by auto
    from d show "trace s' = trace s @ [Acquire Write_lock, Acquire Mutex]
          @ replicate (read_limit s) (Acquire Read_semaphore)
          @ [Call ''set_value'',
             Acquire File_mutex, CreateFile_ev, WriteFile_ev, CloseHandle_ev, Release File_mutex]
          @ replicate (read_limit s) (Release Read_semaphore)
          @ [Release Mutex, Release Write_lock]" by simp
  }
  assume a: "quiescent s \<and> create_always_error env = None \<and> write_error env = None \<and>
      pickle_dumps env (data s) = Inr encoded"
  with sv have "\<exists>t. value_set env key v s = Returns (fst (set_value s key v)) t \<and> quiescent t"
    by (intro value_set_total [where bytes = encoded]) simp_all
  then obtain t where run: "value_set env key v s = Returns False t"
    by (auto simp: sv)
  from value_set_Returns [OF run] a sv
  have "data t = data s \<and> fs t = (fs s)(filename s \<mapsto> encoded)" by auto
  with run show "\<exists>t. value_set env key v s = Returns False t \<and> data t = data s \<and>
           fs t = (fs s)(filename s \<mapsto> encoded)"
    by blast
qed

text \<open>A refused insert on a store whose snapshot file was removed writes the file again.\<close>

theorem value_set_saves_when_key_present_witness:
  "data db1 0 = Some (Val 1) \<and>
   (\<exists>t. value_set ok_env 0 (Val 2) (db1\<lparr>fs := Map.empty\<rparr>) = Returns False t \<and>
        data t = [0 \<mapsto> Val 1] \<and> fs t = [''test.pkl'' \<mapsto> [[0 \<mapsto> Val 1]]])"
proof -
  let ?s = "db1\<lparr>fs := Map.empty\<rparr>"
  have q: "quiescent ?s" using db1_fields(1) by (simp add: quiescent_def)
  from value_set_saves_when_key_present [THEN mp, THEN conjunct2, rule_format,
      of ?s 0 ok_env "[[0 \<mapsto> Val 1]]" "Val 2"]
  have "\<exists>t. value_set ok_env 0 (Val 2) ?s = Returns False t \<and> data t = data ?s \<and>
           fs t = (fs ?s)(filename ?s \<mapsto> [[0 \<mapsto> Val 1]])"
    by (simp add: q db1_fields ok_env_fields)
  then show ?thesis by (simp add: db1_fields)
qed

lemma db_none_fields:
  "quiescent db_none" "read_limit db_none = 10" "filename db_none = ''test.pkl''"
  "fs db_none = [''test.pkl'' \<mapsto> [[0 \<mapsto> PyNone]]]"
  using db0_fields(1) by (simp_all add: db_none_def db0_fields quiescent_def)

lemma db_truncated_fields:
  "quiescent db_truncated" "read_limit db_truncated = 10" "filename db_truncated = ''test.pkl''"
  "fs db_truncated = [''test.pkl'' \<mapsto> []]"
  using db0_fields(1) by (simp_all add: db_truncated_def db0_fields quiescent_def)

lemma value_get_total:
  assumes q: "quiescent s" and pos: "0 < read_limit s"
    and present: "fs s (filename s) = Some bytes"
    and io: "open_existing_error env = None" "read_error env = None"
    and dec: "pickle_loads env bytes = Inr d"
  shows "\<exists>t. value_get env key s = Returns (case d key of None \<Rightarrow> PyNone | Some v \<Rightarrow> v) t \<and>
           quiescent t \<and> data t = d"
proof -
  let ?t = "(at_load s)\<lparr>data := d,
              trace := trace (at_load s) @ [Acquire File_mutex, CreateFile_ev, ReadFile_ev,
                                            CloseHandle_ev, Release File_mutex]\<rparr>"
  have l: "load env (at_load s) = Returns () ?t"
    using q present io dec by (intro load_present [of _ bytes]) (simp_all add: at_load_fields quiescentD)
  have "value_get env key s = Returns (get_value ?t key)
      (?t\<lparr>handles := (handles ?t)(Read_semaphore \<mapsto> SemaphoreObj (read_limit s) (read_limit s)),
          trace := trace ?t @ [Call ''get_value'', Release Read_semaphore]\<rparr>)"
    by (simp only: value_get_quiescent [OF q pos] l outcome.case)
  moreover have "get_value ?t key = (case d key of None \<Rightarrow> PyNone | Some v \<Rightarrow> v)"
    by (simp add: get_value_def split: option.splits)
  moreover have "quiescent (?t\<lparr>handles := (handles ?t)(Read_semaphore \<mapsto> SemaphoreObj (read_limit s) (read_limit s)),
          trace := trace ?t @ [Call ''get_value'', Release Read_semaphore]\<rparr>)"
    using q by (simp add: quiescent_def at_load_def)
  ultimately show ?thesis by simp
qed

section \<open>Reading\<close>

text \<open>
  C10. \<open>get_value\<close> returns \<open>None\<close> for a key bound to \<open>None\<close> and for a key that is absent.
  A call of \<open>value_get\<close> that returns has loaded the snapshot and returns \<open>get_value\<close> of the
  loaded dictionary, so it returns \<open>None\<close> in both cases too.
\<close>

theorem none_value_reads_as_absent:
  "(data s key = Some PyNone \<longrightarrow> get_value s key = PyNone) \<and>
   (data s key = None \<longrightarrow> get_value s key = PyNone) \<and>
   (value_get env key s = Returns r s' \<longrightarrow>
      (case fs s (filename s) of
         None \<Rightarrow> data s' = Map.empty
       | Some content \<Rightarrow> pickle_loads env content = Inr (data s')) \<and>
      r = get_value s' key \<and>
      (data s' key = Some PyNone \<longrightarrow> r = PyNone) \<and>
      (data s' key = None \<longrightarrow> r = PyNone))"
proof (intro conjI impI)
  show "get_value s key = PyNone" if "data s key = Some PyNone"
    using that by (simp add: get_value_def)
  show "get_value s key = PyNone" if "data s key = None"
    using that by (simp add: get_value_def)
  assume run: "value_get env key s = Returns r s'"
  note d = value_get_Returns [OF run]
  from d show "case fs s (filename s) of
         None \<Rightarrow> data s' = Map.empty
       | Some content \<Rightarrow> pickle_loads env content = Inr (data s')"
    by (auto split: option.splits)
  from d show r: "r = get_value s' key" by simp
  show "r = PyNone" if "data s' key = Some PyNone"
    using that by (simp add: r get_value_def)
  show "r = PyNone" if "data s' key = None"
    using that by (simp add: r get_value_def)
qed

text \<open>A snapshot that binds key 0 to \<open>None\<close> and has no key 1.\<close>

theorem none_value_reads_as_absent_witness:
  "(\<exists>t. value_get ok_env 0 db_none = Returns PyNone t \<and> data t 0 = Some PyNone) \<and>
   (\<exists>t. value_get ok_env 1 db_none = Returns PyNone t \<and> data t 1 = None)"
proof -
  note part = none_value_reads_as_absent [THEN conjunct2, THEN conjunct2, rule_format]
  have "\<exists>t. value_get ok_env key db_none =
          Returns (case [0 \<mapsto> PyNone] key of None \<Rightarrow> PyNone | Some v \<Rightarrow> v) t \<and>
          quiescent t \<and> data t = [0 \<mapsto> PyNone]" for key
    by (rule value_get_total [where s = db_none and bytes = "[[0 \<mapsto> PyNone]]" and d = "[0 \<mapsto> PyNone]"])
       (simp_all add: db_none_fields ok_env_fields)
  then obtain t0 t1 where
    r0: "value_get ok_env 0 db_none = Returns PyNone t0" "data t0 = [0 \<mapsto> PyNone]" and
    r1: "value_get ok_env 1 db_none = Returns PyNone t1" "data t1 = [0 \<mapsto> PyNone]"
    by (metis (no_types, lifting) fun_upd_apply option.simps(4,5) zero_neq_one)
  from part [OF r0(1)] r0 have "value_get ok_env 0 db_none = Returns PyNone t0 \<and> data t0 0 = Some PyNone"
    by simp
  moreover
  from part [OF r1(1)] r1 have "value_get ok_env 1 db_none = Returns PyNone t1 \<and> data t1 1 = None"
    by simp
  ultimately show ?thesis by blast
qed

lemma new_Returns:
  fixes s :: "('k, 'a, 'b) SynchronizedDataBase"
  assumes "SynchronizedDataBase_new env fname mode files = Returns u s"
  shows "read_limit s = 10 \<and> filename s = fname \<and> fs s = files \<and>
         handles s File_mutex = Some (MutexObj Free) \<and>
         (mode = ''threads'' \<longrightarrow> quiescent s) \<and>
         (mode = ''processes'' \<longrightarrow>
            handles s Mutex =
              (case named_objects env Mutex of None \<Rightarrow> Some (MutexObj Free) | Some obj \<Rightarrow> Some obj) \<and>
            handles s Read_semaphore =
              (case named_objects env Read_semaphore of
                 None \<Rightarrow> Some (SemaphoreObj 10 10)
               | Some obj \<Rightarrow> Some obj) \<and>
            handles s Write_lock =
              (case named_objects env Write_lock of None \<Rightarrow> Some (MutexObj Free) | Some obj \<Rightarrow> Some obj))"
proof -
  define blank :: "('k, 'a, 'b) SynchronizedDataBase" where "blank = new_object files"
  let ?o = "blank\<lparr>data := Map.empty, filename := fname,
              handles := (handles blank)(File_mutex \<mapsto> MutexObj Free)\<rparr>"
  from assms obtain u0 s0 where
    l: "load env ?o = Returns u0 s0" and
    r0: "and_then (\<lambda>self. Returns () (self\<lparr>read_limit := 10\<rparr>)) (\<lambda>u self.
       if mode = ''threads'' then
         and_then (CreateMutex None Mutex) (\<lambda>u.
         and_then (\<lambda>t. CreateSemaphore None (read_limit t) (read_limit t) Read_semaphore t) (\<lambda>u.
         CreateMutex None Write_lock)) self
       else if mode = ''processes'' then
         and_then (CreateMutex (named_objects env Mutex) Mutex) (\<lambda>u.
         and_then (\<lambda>t. CreateSemaphore (named_objects env Read_semaphore)
                          (read_limit t) (read_limit t) Read_semaphore t) (\<lambda>u.
         CreateMutex (named_objects env Write_lock) Write_lock)) self
       else Returns () self) s0 = Returns u s"
    unfolding SynchronizedDataBase_new_def SynchronizedDataBase_init_def SerializedDataBase_init_def
      blank_def
    by (blast dest: and_then_Returns)
  let ?s1 = "s0\<lparr>read_limit := 10\<rparr>"
  from r0 have r: "(if mode = ''threads'' then
         and_then (CreateMutex None Mutex) (\<lambda>u.
         and_then (\<lambda>t. CreateSemaphore None (read_limit t) (read_limit t) Read_semaphore t) (\<lambda>u.
         CreateMutex None Write_lock)) ?s1
       else if mode = ''processes'' then
         and_then (CreateMutex (named_objects env Mutex) Mutex) (\<lambda>u.
         and_then (\<lambda>t. CreateSemaphore (named_objects env Read_semaphore)
                          (read_limit t) (read_limit t) Read_semaphore t) (\<lambda>u.
         CreateMutex (named_objects env Write_lock) Write_lock)) ?s1
       else Returns () ?s1) = Returns u s"
    by (simp add: and_then_def)
  have "handles (state_of (load env ?o)) = handles ?o"
    by (rule load_keeps_handles) simp
  with l have h0: "handles s0 File_mutex = Some (MutexObj Free)" by simp
  from load_Returns [OF l] have f0: "filename s0 = fname" "fs s0 = files"
    by (auto simp: blank_def new_object_def split: option.splits)
  consider (threads) "mode = ''threads''"
    | (processes) "mode \<noteq> ''threads''" "mode = ''processes''"
    | (other) "mode \<noteq> ''threads''" "mode \<noteq> ''processes''"
    by blast
  then show ?thesis
  proof cases
    case threads
    with r h0 f0 show ?thesis
      by (auto simp: and_then_def CreateMutex_def CreateSemaphore_def quiescent_def)
  next
    case processes
    with r h0 f0 show ?thesis
      by (auto simp: and_then_def CreateMutex_def CreateSemaphore_def
            split: option.splits kobj.splits)
  next
    case other
    with r h0 f0 show ?thesis by auto
  qed
qed

section \<open>Construction\<close>

text \<open>
  C8, as the code has it. The constructor takes a file name and a mode and nothing else.
  Every store it returns has \<open>read_limit = 10\<close>. In mode \<open>threads\<close> its read semaphore is
  created with 10 slots available out of 10. In mode \<open>processes\<close> the semaphore is created so
  only when no object has its name; a semaphore that exists under the name is opened as it
  is, whatever its count. A call of \<open>value_set\<close> on the store that returns has taken 10 slots
  before the insert and released 10 after the save.
\<close>

theorem read_capacity_is_ten:
  "SynchronizedDataBase_new env fname mode files = Returns u s \<longrightarrow>
     read_limit s = 10 \<and>
     (mode = ''threads'' \<longrightarrow> handles s Read_semaphore = Some (SemaphoreObj 10 10)) \<and>
     (mode = ''processes'' \<longrightarrow>
        handles s Read_semaphore =
          (case named_objects env Read_semaphore of
             None \<Rightarrow> Some (SemaphoreObj 10 10)
           | Some obj \<Rightarrow> Some obj)) \<and>
     (\<forall>env' key v r s'. value_set env' key v s = Returns r s' \<longrightarrow>
        trace s' = trace s @ [Acquire Write_lock, Acquire Mutex]
          @ replicate 10 (Acquire Read_semaphore)
          @ [Call ''set_value'',
             Acquire File_mutex, CreateFile_ev, WriteFile_ev, CloseHandle_ev, Release File_mutex]
          @ replicate 10 (Release Read_semaphore)
          @ [Release Mutex, Release Write_lock])"
proof (intro impI conjI allI)
  assume new: "SynchronizedDataBase_new env fname mode files = Returns u s"
  note n = new_Returns [OF new]
  from n show ten: "read_limit s = 10" by simp
  show "handles s Read_semaphore = Some (SemaphoreObj 10 10)" if "mode = ''threads''"
    using n that ten by (simp add: quiescent_def)
  show "handles s Read_semaphore =
          (case named_objects env Read_semaphore of
             None \<Rightarrow> Some (SemaphoreObj 10 10)
           | Some obj \<Rightarrow> Some obj)" if "mode = ''processes''"
    using n that by simp
  fix env' :: "('a, 'b, 'c) env" and key v r s'
  assume "value_set env' key v s = Returns r s'"
  from value_set_Returns [OF this] ten
  show "trace s' = trace s @ [Acquire Write_lock, Acquire Mutex]
          @ replicate 10 (Acquire Read_semaphore)
          @ [Call ''set_value'',
             Acquire File_mutex, CreateFile_ev, WriteFile_ev, CloseHandle_ev, Release File_mutex]
          @ replicate 10 (Release Read_semaphore)
          @ [Release Mutex, Release Write_lock]"
    by simp
qed

lemma new_db0: "SynchronizedDataBase_new ok_env ''test.pkl'' ''threads'' Map.empty = Returns () db0"
  by (simp add: db0_eq) (simp add: SynchronizedDataBase_new_def SynchronizedDataBase_init_def
        SerializedDataBase_init_def new_object_def calls ok_env_def Let_def)

lemma new_db_shared:
  "SynchronizedDataBase_new busy_env ''test.pkl'' ''processes'' Map.empty = Returns () db_shared"
  by (simp add: db_shared_def SynchronizedDataBase_new_def SynchronizedDataBase_init_def
        SerializedDataBase_init_def new_object_def calls busy_env_def ok_env_def)

lemma new_db_first:
  "SynchronizedDataBase_new ok_env ''test.pkl'' ''processes'' Map.empty = Returns () db_first"
  by (simp add: db_first_def SynchronizedDataBase_new_def SynchronizedDataBase_init_def
        SerializedDataBase_init_def new_object_def calls ok_env_def)

text \<open>
  The store constructed on a missing file in mode \<open>threads\<close>; in mode \<open>processes\<close> by the first
  process; and in mode \<open>processes\<close> while another process is writing: this store has capacity
  10 too, and finds no slot available.
\<close>

theorem read_capacity_is_ten_witness:
  "SynchronizedDataBase_new ok_env ''test.pkl'' ''threads'' Map.empty = Returns () db0 \<and>
   read_limit db0 = 10 \<and> handles db0 Read_semaphore = Some (SemaphoreObj 10 10) \<and>
   SynchronizedDataBase_new ok_env ''test.pkl'' ''processes'' Map.empty = Returns () db_first \<and>
   read_limit db_first = 10 \<and> handles db_first Read_semaphore = Some (SemaphoreObj 10 10) \<and>
   SynchronizedDataBase_new busy_env ''test.pkl'' ''processes'' Map.empty = Returns () db_shared \<and>
   read_limit db_shared = 10 \<and> handles db_shared Read_semaphore = Some (SemaphoreObj 0 10)"
  using read_capacity_is_ten [of ok_env "''test.pkl''" "''threads''" Map.empty "()" db0]
    read_capacity_is_ten [of ok_env "''test.pkl''" "''processes''" Map.empty "()" db_first]
    read_capacity_is_ten [of busy_env "''test.pkl''" "''processes''" Map.empty "()" db_shared]
    new_db0 new_db_first new_db_shared
  by (simp add: busy_env_def ok_env_def)

text \<open>
  C8, as stated, fails: the capacity of a constructed store is 10 and no argument of the
  constructor changes it; a caller who wants 5 readers gets 10.
\<close>

theorem read_capacity_not_configurable:
  "read_limit (state_of (SynchronizedDataBase_new
      (ok_env :: (nat, int, nat \<rightharpoonup> int pyval) env) ''test.pkl'' ''threads'' Map.empty)) = 10 \<and>
   read_limit (state_of (SynchronizedDataBase_new
      (ok_env :: (nat, int, nat \<rightharpoonup> int pyval) env) ''test.pkl'' ''threads'' Map.empty)) \<noteq> 5 \<and>
   handles (state_of (SynchronizedDataBase_new
      (ok_env :: (nat, int, nat \<rightharpoonup> int pyval) env) ''test.pkl'' ''threads'' Map.empty))
      Read_semaphore \<noteq> Some (SemaphoreObj 5 5)"
  by (simp add: SynchronizedDataBase_new_def SynchronizedDataBase_init_def
        SerializedDataBase_init_def new_object_def calls ok_env_def Let_def)

lemma save_write_fails:
  assumes "handles s File_mutex = Some (MutexObj Free)" "create_always_error env = None"
    "pickle_dumps env (data s) = Inr bytes" "write_error env = Some e"
  shows "save env s =
     Raises e (s\<lparr>fs := (fs s)(filename s \<mapsto> []),
                 trace := trace s @ [Acquire File_mutex, CreateFile_ev, CloseHandle_ev,
                                     Release File_mutex]\<rparr>)"
proof -
  have "(handles s)(File_mutex \<mapsto> MutexObj Free) = handles s"
    using assms by (simp add: fun_upd_idem)
  with assms show ?thesis
    by (simp add: save_def save_finally_def and_then_def try_finally_def WaitForSingleObject_def
          ReleaseMutex_def CreateFile_CREATE_ALWAYS_def WriteFile_def CloseHandle_def)
qed

lemma load_decode_fails:
  assumes "handles s File_mutex = Some (MutexObj Free)" "fs s (filename s) = Some bytes"
    "open_existing_error env = None" "read_error env = None" "pickle_loads env bytes = Inl e"
  shows "load env s =
     Raises e (s\<lparr>trace := trace s @ [Acquire File_mutex, CreateFile_ev, ReadFile_ev,
                                     Release File_mutex]\<rparr>)"
proof -
  have "(handles s)(File_mutex \<mapsto> MutexObj Free) = handles s"
    using assms by (simp add: fun_upd_idem)
  with assms show ?thesis
    by (simp add: load_def and_then_def try_finally_def WaitForSingleObject_def ReleaseMutex_def
          CreateFile_OPEN_EXISTING_def ReadFile_def getsize_def CloseHandle_def)
qed

lemma value_set_Raises_iff:
  "quiescent s \<Longrightarrow>
   value_set env key v s = Raises e s' \<longleftrightarrow> save env (at_save key v s) = Raises e s'"
  by (simp add: value_set_quiescent split: outcome.splits)

lemma value_get_Raises_iff:
  "quiescent s \<Longrightarrow> 0 < read_limit s \<Longrightarrow>
   value_get env key s = Raises e s' \<longleftrightarrow> load env (at_load s) = Raises e s'"
  by (simp add: value_get_quiescent split: outcome.splits)

lemma full_disk_fields:
  "create_always_error full_disk_env = None" "write_error full_disk_env = Some WinError"
  "pickle_dumps full_disk_env d = Inr [d]"
  by (simp_all add: full_disk_env_def ok_env_def)

lemma value_set_full_disk:
  "value_set full_disk_env 0 (Val 1) db0 =
     Raises WinError ((at_save 0 (Val 1) db0)
       \<lparr>fs := [''test.pkl'' \<mapsto> []],
        trace := trace (at_save 0 (Val 1) db0) @ [Acquire File_mutex, CreateFile_ev, CloseHandle_ev,
                                                  Release File_mutex]\<rparr>)"
proof -
  have "save full_disk_env (at_save 0 (Val 1) db0) =
     Raises WinError ((at_save 0 (Val 1) db0)
       \<lparr>fs := (fs (at_save 0 (Val 1) db0))(filename (at_save 0 (Val 1) db0) \<mapsto> []),
        trace := trace (at_save 0 (Val 1) db0) @ [Acquire File_mutex, CreateFile_ev, CloseHandle_ev,
                                                  Release File_mutex]\<rparr>)"
    by (rule save_write_fails)
       (simp_all add: at_save_fields db0_fields quiescentD full_disk_fields)
  then show ?thesis
    by (simp add: value_set_Raises_iff db0_fields at_save_fields)
qed

lemma value_get_truncated:
  "value_get ok_env 0 db_truncated =
     Raises EOFError ((at_load db_truncated)
       \<lparr>trace := trace (at_load db_truncated) @ [Acquire File_mutex, CreateFile_ev, ReadFile_ev,
                                                 Release File_mutex]\<rparr>)"
proof -
  have "load ok_env (at_load db_truncated) =
     Raises EOFError ((at_load db_truncated)
       \<lparr>trace := trace (at_load db_truncated) @ [Acquire File_mutex, CreateFile_ev, ReadFile_ev,
                                                 Release File_mutex]\<rparr>)"
    by (rule load_decode_fails [where bytes = "[]"])
       (simp_all add: at_load_fields db_truncated_fields quiescentD ok_env_fields)
  then show ?thesis
    by (simp add: value_get_Raises_iff db_truncated_fields)
qed

section \<open>Errors in the protected section\<close>

text \<open>
  C2, as the code has it. Called in a quiescent state, \<open>value_set\<close> raises exactly when
  \<open>save\<close> raises, with the same error and in the state \<open>save\<close> left: nothing runs after the
  failing \<open>save\<close>, so the write lock and the mutex stay owned and no slot of the read semaphore
  is given back. Likewise \<open>value_get\<close> raises exactly when \<open>load\<close> raises, and the slot it took
  is not given back; the file mutex, which \<open>load\<close> releases in its \<open>finally\<close> block, is free.
\<close>

theorem gates_stay_held_on_error:
  "(quiescent s \<longrightarrow>
      (value_set env key v s = Raises e s' \<longleftrightarrow> save env (at_save key v s) = Raises e s') \<and>
      (value_set env key v s = Raises e s' \<longrightarrow>
         handles s' Write_lock = Some (MutexObj (Owned 1)) \<and>
         handles s' Mutex = Some (MutexObj (Owned 1)) \<and>
         handles s' Read_semaphore = Some (SemaphoreObj 0 (read_limit s)))) \<and>
   (quiescent s \<and> 0 < read_limit s \<longrightarrow>
      (value_get env key s = Raises e s' \<longleftrightarrow> load env (at_load s) = Raises e s') \<and>
      (value_get env key s = Raises e s' \<longrightarrow>
         handles s' Read_semaphore = Some (SemaphoreObj (read_limit s - 1) (read_limit s)) \<and>
         handles s' File_mutex = Some (MutexObj Free)))"
proof (intro conjI impI)
  assume q: "quiescent s"
  show "value_set env key v s = Raises e s' \<longleftrightarrow> save env (at_save key v s) = Raises e s'"
    by (rule value_set_Raises_iff [OF q])
  assume "value_set env key v s = Raises e s'"
  with q have sv: "state_of (save env (at_save key v s)) = s'"
    by (simp add: value_set_Raises_iff)
  from save_handles [of Write_lock env "at_save key v s"]
  show "handles s' Write_lock = Some (MutexObj (Owned 1))" by (simp add: sv at_save_fields)
  from save_handles [of Mutex env "at_save key v s"]
  show "handles s' Mutex = Some (MutexObj (Owned 1))" by (simp add: sv at_save_fields)
  from save_handles [of Read_semaphore env "at_save key v s"]
  show "handles s' Read_semaphore = Some (SemaphoreObj 0 (read_limit s))"
    by (simp add: sv at_save_fields)
next
  assume a: "quiescent s \<and> 0 < read_limit s"
  then show "value_get env key s = Raises e s' \<longleftrightarrow> load env (at_load s) = Raises e s'"
    by (intro value_get_Raises_iff) simp_all
  assume "value_get env key s = Raises e s'"
  with a have ld: "state_of (load env (at_load s)) = s'"
    by (simp add: value_get_Raises_iff)
  from a have "handles (at_load s) File_mutex = Some (MutexObj Free)"
    by (simp add: at_load_fields quiescentD)
  from load_keeps_handles [OF this, of env] have h: "handles s' = handles (at_load s)"
    by (simp add: ld)
  show "handles s' Read_semaphore = Some (SemaphoreObj (read_limit s - 1) (read_limit s))"
    by (simp add: h at_load_fields)
  from a show "handles s' File_mutex = Some (MutexObj Free)"
    by (simp add: h at_load_fields quiescentD)
qed

text \<open>A write on a full disk, and a read of a truncated snapshot.\<close>

theorem gates_stay_held_on_error_witness:
  "quiescent db0 \<and>
   raised (value_set full_disk_env 0 (Val 1) db0) = Some WinError \<and>
   handles (state_of (value_set full_disk_env 0 (Val 1) db0)) Write_lock = Some (MutexObj (Owned 1)) \<and>
   handles (state_of (value_set full_disk_env 0 (Val 1) db0)) Mutex = Some (MutexObj (Owned 1)) \<and>
   handles (state_of (value_set full_disk_env 0 (Val 1) db0)) Read_semaphore = Some (SemaphoreObj 0 10) \<and>
   quiescent db_truncated \<and> 0 < read_limit db_truncated \<and>
   raised (value_get ok_env 0 db_truncated) = Some EOFError \<and>
   handles (state_of (value_get ok_env 0 db_truncated)) Read_semaphore = Some (SemaphoreObj 9 10)"
proof -
  let ?t = "(at_save 0 (Val 1) db0)
       \<lparr>fs := [''test.pkl'' \<mapsto> []],
        trace := trace (at_save 0 (Val 1) db0) @ [Acquire File_mutex, CreateFile_ev, CloseHandle_ev,
                                                  Release File_mutex]\<rparr>"
  let ?r = "(at_load db_truncated)
       \<lparr>trace := trace (at_load db_truncated) @ [Acquire File_mutex, CreateFile_ev, ReadFile_ev,
                                                 Release File_mutex]\<rparr>"
  note w = gates_stay_held_on_error [THEN conjunct1, rule_format, THEN conjunct2, rule_format,
             of db0 full_disk_env 0 "Val 1" WinError ?t]
  note g = gates_stay_held_on_error [THEN conjunct2, rule_format, THEN conjunct2, rule_format,
             of db_truncated ok_env 0 EOFError ?r]
  from w [OF db0_fields(1) value_set_full_disk]
  have 1: "handles ?t Write_lock = Some (MutexObj (Owned 1)) \<and>
         handles ?t Mutex = Some (MutexObj (Owned 1)) \<and>
         handles ?t Read_semaphore = Some (SemaphoreObj 0 10)"
    by (simp only: db0_fields)
  have "quiescent db_truncated \<and> 0 < read_limit db_truncated"
    by (simp add: db_truncated_fields)
  from g [OF this value_get_truncated]
  have 2: "handles ?r Read_semaphore = Some (SemaphoreObj 9 10)"
    by (simp add: db_truncated_fields)
  from 1 2 show ?thesis
    by (simp only: value_set_full_disk value_get_truncated raised.simps state_of.simps
          db0_fields db_truncated_fields) simp
qed

text \<open>
  C2, as stated, fails: after \<open>value_set\<close> raised on a full disk the write lock, the mutex
  and all 10 slots are still held, and after \<open>value_get\<close> raised on a truncated snapshot one
  slot is still held.
\<close>

theorem gates_leak_on_error:
  "raised (value_set full_disk_env 0 (Val 1) db0) = Some WinError \<and>
   handles db0 Write_lock = Some (MutexObj Free) \<and>
   handles (state_of (value_set full_disk_env 0 (Val 1) db0)) Write_lock = Some (MutexObj (Owned 1)) \<and>
   handles db0 Mutex = Some (MutexObj Free) \<and>
   handles (state_of (value_set full_disk_env 0 (Val 1) db0)) Mutex = Some (MutexObj (Owned 1)) \<and>
   handles db0 Read_semaphore = Some (SemaphoreObj 10 10) \<and>
   handles (state_of (value_set full_disk_env 0 (Val 1) db0)) Read_semaphore = Some (SemaphoreObj 0 10) \<and>
   raised (value_get ok_env 0 db_truncated) = Some EOFError \<and>
   handles db_truncated Read_semaphore = Some (SemaphoreObj 10 10) \<and>
   handles (state_of (value_get ok_env 0 db_truncated)) Read_semaphore = Some (SemaphoreObj 9 10)"
  using quiescentD [OF db0_fields(1)] quiescentD [OF db_truncated_fields(1)]
  by (simp add: value_set_full_disk value_get_truncated at_save_fields at_load_fields
        db0_fields db_truncated_fields)

lemma value_delete_quiescent:
  assumes q: "quiescent s"
  shows "value_delete key s =
     Raises RuntimeError
       (s\<lparr>handles := (handles s)
            (Write_lock \<mapsto> MutexObj (Owned 1),
             Mutex \<mapsto> MutexObj (Owned 1),
             Read_semaphore \<mapsto> SemaphoreObj 0 (read_limit s)),
          trace := trace s @ [Acquire Write_lock, Acquire Mutex]
            @ replicate (read_limit s) (Acquire Read_semaphore)\<rparr>)"
proof -
  let ?n = "read_limit s"
  let ?s1 = "s\<lparr>handles := (handles s)(Write_lock \<mapsto> MutexObj (Owned 1)),
                trace := trace s @ [Acquire Write_lock]\<rparr>"
  let ?s2 = "?s1\<lparr>handles := (handles ?s1)(Mutex \<mapsto> MutexObj (Owned 1)),
                  trace := trace ?s1 @ [Acquire Mutex]\<rparr>"
  let ?s3 = "?s2\<lparr>handles := (handles ?s2)(Read_semaphore \<mapsto> SemaphoreObj (?n - ?n) ?n),
                  trace := trace ?s2 @ replicate ?n (Acquire Read_semaphore)\<rparr>"
  from q have w1: "WaitForSingleObject Write_lock s = Returns () ?s1"
    by (intro Wait_Free) (simp add: quiescent_def)
  from q have w2: "WaitForSingleObject Mutex ?s1 = Returns () ?s2"
    by (intro Wait_Free) (simp add: quiescent_def)
  from q have "repeat ?n (WaitForSingleObject Read_semaphore) ?s2 = Returns () ?s3"
    by (intro drain_exact) (simp_all add: quiescent_def)
  moreover have "read_limit ?s2 = ?n" by simp
  ultimately have w3: "repeat (read_limit ?s2) (WaitForSingleObject Read_semaphore) ?s2 = Returns () ?s3"
    by (simp only:)
  have "value_delete key s = Raises RuntimeError ?s3"
    by (simp only: value_delete_def and_then_def w1 w2 w3 outcome.case)
  then show ?thesis by simp
qed

section \<open>Deleting from a synchronized store\<close>

text \<open>
  C1. The only \<open>delete\<close> a \<open>SynchronizedDataBase\<close> object has is the one inherited from
  \<open>DataBase\<close>: it changes the dictionary in memory and touches neither the file, nor a gate.
  After \<open>db.value_set(0, 1)\<close> and \<open>db.delete(0)\<close> the dictionary is empty while the snapshot
  still binds key 0, and the next \<open>db.value_get(0)\<close> returns 1. The function \<open>value_delete\<close>,
  called on the same object, takes the gates and raises before it deletes or saves.
\<close>

theorem delete_leaves_snapshot_stale:
  "fs (snd (delete s key)) = fs s \<and>
   handles (snd (delete s key)) = handles s \<and>
   trace (snd (delete s key)) = trace s \<and>
   returned (value_set ok_env 0 (Val 1) db0) = Some True \<and>
   data db1 = [0 \<mapsto> Val 1] \<and>
   fs db1 ''test.pkl'' = Some [[0 \<mapsto> Val 1]] \<and>
   fst (delete db1 0) = Val 1 \<and>
   data (snd (delete db1 0)) = Map.empty \<and>
   fs (snd (delete db1 0)) ''test.pkl'' = Some [[0 \<mapsto> Val 1]] \<and>
   returned (value_get ok_env 0 (snd (delete db1 0))) = Some (Val 1) \<and>
   raised (value_delete 0 db1) = Some RuntimeError \<and>
   fs (state_of (value_delete 0 db1)) = fs db1 \<and>
   handles (state_of (value_delete 0 db1)) Write_lock = Some (MutexObj (Owned 1)) \<and>
   handles (state_of (value_delete 0 db1)) Mutex = Some (MutexObj (Owned 1)) \<and>
   handles (state_of (value_delete 0 db1)) Read_semaphore = Some (SemaphoreObj 0 10)"
proof -
  have frame: "fs (snd (delete s key)) = fs s \<and> handles (snd (delete s key)) = handles s \<and>
      trace (snd (delete s key)) = trace s"
    by (simp add: delete_def)
  from value_set_db0 have set: "returned (value_set ok_env 0 (Val 1) db0) = Some True"
    by auto
  have del: "delete db1 0 = (Val 1, db1\<lparr>data := Map.empty\<rparr>)"
    by (simp add: delete_def db1_fields)
  let ?s = "db1\<lparr>data := Map.empty\<rparr>"
  have "\<exists>t. value_get ok_env 0 ?s =
          Returns (case [0 \<mapsto> Val 1] (0::nat) of None \<Rightarrow> PyNone | Some v \<Rightarrow> v) t \<and>
          quiescent t \<and> data t = [0 \<mapsto> Val 1]"
    using db1_fields(1)
    by (intro value_get_total [where bytes = "[[0 \<mapsto> Val 1]]" and d = "[0 \<mapsto> Val 1]"])
       (simp_all add: db1_fields ok_env_fields quiescent_def)
  then have get: "returned (value_get ok_env 0 ?s) = Some (Val 1)"
    by auto
  note vd = value_delete_quiescent [OF db1_fields(1), of 0]
  from frame set del get show ?thesis
    by (simp add: db1_fields vd)
qed


section \<open>The in-memory operations\<close>

text \<open>
  C3. \<open>set_value\<close> on a key that is present returns \<open>False\<close> and leaves the object as it
  was; on an absent key it stores the pair and returns \<open>True\<close>.
\<close>

theorem set_value_insert_if_absent:
  "(data self key \<noteq> None \<longrightarrow> set_value self key v = (False, self)) \<and>
   (data self key = None \<longrightarrow>
      set_value self key v = (True, self\<lparr>data := (data self)(key \<mapsto> v)\<rparr>) \<and>
      data (snd (set_value self key v)) key = Some v \<and>
      (\<forall>k. k \<noteq> key \<longrightarrow> data (snd (set_value self key v)) k = data self k))"
  by (simp add: set_value_def)

theorem set_value_insert_if_absent_witness:
  "set_value \<lparr>data = [1 \<mapsto> Val ''a'']\<rparr> (1::nat) (Val ''b'') = (False, \<lparr>data = [1 \<mapsto> Val ''a'']\<rparr>) \<and>
   set_value \<lparr>data = [1 \<mapsto> Val ''a'']\<rparr> (2::nat) (Val ''b'')
     = (True, \<lparr>data = [1 \<mapsto> Val ''a'', 2 \<mapsto> Val ''b'']\<rparr>)"
  using set_value_insert_if_absent [of "\<lparr>data = [1 \<mapsto> Val ''a'']\<rparr>" "1::nat" "Val ''b''"]
    set_value_insert_if_absent [of "\<lparr>data = [1 \<mapsto> Val ''a'']\<rparr>" "2::nat" "Val ''b''"]
  by simp

text \<open>
  C7. \<open>delete\<close> on a present key removes exactly that key and returns the value that was
  stored; on an absent key it returns \<open>None\<close> and leaves the object as it was.
\<close>

theorem delete_present_absent:
  "(data self key = Some v \<longrightarrow>
      delete self key = (v, self\<lparr>data := (data self)(key := None)\<rparr>) \<and>
      data (snd (delete self key)) key = None \<and>
      (\<forall>k. k \<noteq> key \<longrightarrow> data (snd (delete self key)) k = data self k)) \<and>
   (data self key = None \<longrightarrow> delete self key = (PyNone, self))"
  by (simp add: delete_def)

theorem delete_present_absent_witness:
  "delete \<lparr>data = [1 \<mapsto> Val ''a'', 2 \<mapsto> Val ''b'']\<rparr> (2::nat)
     = (Val ''b'', \<lparr>data = [1 \<mapsto> Val ''a'']\<rparr>) \<and>
   delete \<lparr>data = [1 \<mapsto> Val ''a'']\<rparr> (2::nat) = (PyNone, \<lparr>data = [1 \<mapsto> Val ''a'']\<rparr>)"
  using delete_present_absent [of "\<lparr>data = [1 \<mapsto> Val ''a'', 2 \<mapsto> Val ''b'']\<rparr>" "2::nat" "Val ''b''"]
    delete_present_absent [of "\<lparr>data = [1 \<mapsto> Val ''a'']\<rparr>" "2::nat"]
  by (simp add: fun_upd_twist)

end
